theory Spec2Isabelle
  imports Complex_Main "HOL-Library.Multiset"
begin

section \<open>Python values: errors and list operations\<close>

text \<open>
  The notebook \<^verbatim>\<open>M_Model_S_Analysis.ipynb\<close> is Python. Every exception a modelled
  statement can raise is a value of \<open>py_error\<close>, and a function that can raise returns
  \<open>py_error + 'a\<close> with \<open>Inl\<close> for the exception.
\<close>

datatype py_error =
  IndexError | ValueError | KeyError | RuntimeError | OSError | ZeroDivisionError

text \<open>
  \<^verbatim>\<open>xs.index(x)\<close>: the position of the first element equal to \<open>x\<close>; Python raises
  \<^verbatim>\<open>ValueError\<close> when there is none.
\<close>

fun list_index :: "'a list \<Rightarrow> 'a \<Rightarrow> py_error + nat" where
  "list_index [] x = Inl ValueError"
| "list_index (y # ys) x =
     (if y = x then Inr 0
      else (case list_index ys x of Inl e \<Rightarrow> Inl e | Inr i \<Rightarrow> Inr (Suc i)))"

text \<open>
  \<^verbatim>\<open>df.iloc[idx]\<close> with an integer position: a negative position counts from the end,
  a position outside the table raises \<^verbatim>\<open>IndexError\<close>.
\<close>

definition iloc :: "'a list \<Rightarrow> int \<Rightarrow> py_error + 'a" where
  "iloc df idx =
     (if 0 \<le> idx \<and> idx < int (length df) then Inr (df ! nat idx)
      else if idx < 0 \<and> - int (length df) \<le> idx then Inr (df ! nat (int (length df) + idx))
      else Inl IndexError)"

section \<open>The dataset adapter: \<^verbatim>\<open>MemeDataset\<close>\<close>

text \<open>
  The five label tasks are the keys of \<^verbatim>\<open>label_maps\<close>, of the model's
  \<^verbatim>\<open>classifier\<close> and of \<^verbatim>\<open>criterion\<close>; \<open>tasks\<close> lists them in the order the
  source writes them (a Python dict iterates in insertion order).
\<close>

datatype task = Sentiment | Humor | Sarcasm | Offensive | Motivational

definition tasks :: "task list" where
  "tasks = [Sentiment, Humor, Sarcasm, Offensive, Motivational]"

text \<open>\<^verbatim>\<open>self.label_maps\<close> of \<^verbatim>\<open>MemeDataset.__init__\<close>: the fixed vocabulary of each task.\<close>

fun label_maps :: "task \<Rightarrow> string list" where
  "label_maps Sentiment =
     [''very_negative'', ''negative'', ''neutral'', ''positive'', ''very_positive'']"
| "label_maps Humor = [''not_funny'', ''funny'', ''very_funny'', ''hilarious'']"
| "label_maps Sarcasm =
     [''not_sarcastic'', ''general'', ''twisted_meaning'', ''very_twisted'']"
| "label_maps Offensive =
     [''not_offensive'', ''slight'', ''very_offensive'', ''hateful_offensive'']"
| "label_maps Motivational = [''not_motivational'', ''motivational'']"

text \<open>
  One row of \<^verbatim>\<open>labels.csv\<close>, with the columns \<^verbatim>\<open>__getitem__\<close> reads. The label
  columns hold strings.
\<close>

record row =
  image_name :: string
  text_corrected :: string
  overall_sentiment :: string
  humour :: string
  sarcasm :: string
  offensive :: string
  motivational :: string

text \<open>The column of the row that \<^verbatim>\<open>__getitem__\<close> reads for each task.\<close>

fun label_of :: "row \<Rightarrow> task \<Rightarrow> string" where
  "label_of r Sentiment = overall_sentiment r"
| "label_of r Humor = humour r"
| "label_of r Sarcasm = sarcasm r"
| "label_of r Offensive = offensive r"
| "label_of r Motivational = motivational r"

text \<open>
  The dictionary \<^verbatim>\<open>__getitem__\<close> returns. \<open>labels\<close> is the inner dictionary: it has
  the five task keys, so it is a function on \<open>task\<close>; a class index is a \<open>nat\<close>.
\<close>

record 'px sample =
  input_ids :: "int list"
  attention_mask :: "int list"
  pixel_values :: 'px
  labels :: "task \<Rightarrow> nat"

text \<open>
  The dataset object. The tokenizer (\<^verbatim>\<open>DistilBertTokenizer\<close>), the image file reader
  (\<^verbatim>\<open>Image.open(os.path.join(image_dir, name)).convert('RGB')\<close>) and the image
  processor (\<^verbatim>\<open>ViTImageProcessor\<close>) are library code outside the notebook; they are
  fields of the record, and nothing is assumed about them. \<open>tokenizer\<close> stands for the
  call with \<^verbatim>\<open>padding='max_length', truncation=True\<close> followed by the two
  \<^verbatim>\<open>squeeze()\<close> calls, and returns \<open>(input_ids, attention_mask)\<close>; reading an image
  can fail.
\<close>

record ('img, 'px) MemeDataset =
  labels_df :: "row list"
  image_dir :: string
  tokenizer :: "string \<Rightarrow> nat \<Rightarrow> int list \<times> int list"
  text_max_length :: nat
  open_image :: "string \<Rightarrow> string \<Rightarrow> py_error + 'img"
  image_processor :: "'img \<Rightarrow> 'px"

text \<open>\<^verbatim>\<open>__len__\<close>.\<close>

definition MemeDataset_len :: "('img, 'px) MemeDataset \<Rightarrow> nat" where
  "MemeDataset_len ds = length (labels_df ds)"

text \<open>
  The label encoding of \<^verbatim>\<open>__getitem__\<close>. The dictionary display evaluates its
  values in the order written, so the first failing \<^verbatim>\<open>.index\<close> decides the
  exception. Four tasks are encoded with \<^verbatim>\<open>label_maps[task].index(...)\<close>; the fifth
  is \<^verbatim>\<open>1 if row['motivational'] == 'motivational' else 0\<close>.
\<close>

definition encode_labels :: "row \<Rightarrow> py_error + (task \<Rightarrow> nat)" where
  "encode_labels r =
     (case list_index (label_maps Sentiment) (overall_sentiment r) of
        Inl e \<Rightarrow> Inl e
      | Inr s \<Rightarrow>
     (case list_index (label_maps Humor) (humour r) of
        Inl e \<Rightarrow> Inl e
      | Inr h \<Rightarrow>
     (case list_index (label_maps Sarcasm) (sarcasm r) of
        Inl e \<Rightarrow> Inl e
      | Inr c \<Rightarrow>
     (case list_index (label_maps Offensive) (offensive r) of
        Inl e \<Rightarrow> Inl e
      | Inr f \<Rightarrow>
          Inr (\<lambda>t. case t of
                 Sentiment \<Rightarrow> s
               | Humor \<Rightarrow> h
               | Sarcasm \<Rightarrow> c
               | Offensive \<Rightarrow> f
               | Motivational \<Rightarrow> (if motivational r = ''motivational'' then 1 else 0))))))"

text \<open>
  \<^verbatim>\<open>__getitem__\<close>: the row, the text, the image, the labels, in the order of the
  source; the first statement that raises ends the call.
\<close>

definition MemeDataset_getitem ::
    "('img, 'px) MemeDataset \<Rightarrow> int \<Rightarrow> py_error + 'px sample" where
  "MemeDataset_getitem ds idx =
     (case iloc (labels_df ds) idx of
        Inl e \<Rightarrow> Inl e
      | Inr r \<Rightarrow>
          (let inputs = tokenizer ds (text_corrected r) (text_max_length ds) in
           case open_image ds (image_dir ds) (image_name r) of
             Inl e \<Rightarrow> Inl e
           | Inr img \<Rightarrow>
               (let pixels = image_processor ds img in
                case encode_labels r of
                  Inl e \<Rightarrow> Inl e
                | Inr labs \<Rightarrow>
                    Inr \<lparr>input_ids = fst inputs, attention_mask = snd inputs,
                         pixel_values = pixels, labels = labs\<rparr>)))"

text \<open>
  Decoding a class index: \<^verbatim>\<open>label_maps[task][i]\<close>; Python raises \<^verbatim>\<open>IndexError\<close>
  past the end of the list.
\<close>

definition decode_label :: "task \<Rightarrow> nat \<Rightarrow> py_error + string" where
  "decode_label t i =
     (if i < length (label_maps t) then Inr (label_maps t ! i) else Inl IndexError)"

text \<open>
  The widths of the five heads of \<^verbatim>\<open>MultimodalModel.classifier\<close>: the second argument
  of each \<^verbatim>\<open>nn.Linear(512, k)\<close>.
\<close>

fun classifier_out_features :: "task \<Rightarrow> nat" where
  "classifier_out_features Sentiment = 5"
| "classifier_out_features Humor = 4"
| "classifier_out_features Sarcasm = 4"
| "classifier_out_features Offensive = 4"
| "classifier_out_features Motivational = 2"

section \<open>Tensors and layers\<close>

text \<open>
  A batch of vectors (a tensor of shape \<open>N \<times> width\<close>) is a list of rows; a batch of
  hidden states (shape \<open>N \<times> length \<times> width\<close>) a list of lists of rows. Scores are
  real numbers: the claims about the model are about keys, shapes and the order of the
  operations, none about rounding.

  A \<^verbatim>\<open>nn.Linear(in_features, out_features)\<close> holds a weight of shape
  \<open>out_features \<times> in_features\<close> and a bias of shape \<open>out_features\<close>; both are
  functions of the position, read only inside the shape. The shape belongs to the
  module, so no update of the values can change it.
\<close>

record Linear =
  in_features :: nat
  out_features :: nat
  weight :: "nat \<Rightarrow> nat \<Rightarrow> real"
  bias :: "nat \<Rightarrow> real"

definition nn_Linear :: "nat \<Rightarrow> nat \<Rightarrow> (nat \<Rightarrow> nat \<Rightarrow> real) \<Rightarrow> (nat \<Rightarrow> real) \<Rightarrow> Linear" where
  "nn_Linear n_in n_out w b =
     \<lparr>in_features = n_in, out_features = n_out, weight = w, bias = b\<rparr>"

text \<open>
  One output row of a linear layer: \<open>W x + b\<close>. PyTorch raises \<^verbatim>\<open>RuntimeError\<close> when
  the last dimension of the input is not \<open>in_features\<close>.
\<close>

definition affine :: "Linear \<Rightarrow> real list \<Rightarrow> real list" where
  "affine l x =
     map (\<lambda>r. (\<Sum>c\<leftarrow>[0..<in_features l]. weight l r c * x ! c) + bias l r)
       [0..<out_features l]"

definition Linear_forward :: "Linear \<Rightarrow> real list list \<Rightarrow> py_error + real list list" where
  "Linear_forward l x =
     (if list_all (\<lambda>v. length v = in_features l) x then Inr (map (affine l) x)
      else Inl RuntimeError)"

text \<open>
  \<^verbatim>\<open>nn.Dropout(p)\<close> in training mode zeroes the entries the random draw drops and
  scales the others by \<open>1 / (1 - p)\<close>; the draw of one call is the function \<open>keep\<close> of
  the position. In evaluation mode the layer is the identity.
\<close>

definition dropout :: "(nat \<Rightarrow> nat \<Rightarrow> bool) \<Rightarrow> real \<Rightarrow> real list list \<Rightarrow> real list list" where
  "dropout keep p x =
     map (\<lambda>i. map (\<lambda>j. if keep i j then x ! i ! j / (1 - p) else 0) [0..<length (x ! i)])
       [0..<length x]"

datatype layer = Linear_layer Linear | ReLU | Dropout real

fun layer_forward ::
    "bool \<Rightarrow> (nat \<Rightarrow> nat \<Rightarrow> bool) \<Rightarrow> layer \<Rightarrow> real list list \<Rightarrow> py_error + real list list" where
  "layer_forward tr keep (Linear_layer l) x = Linear_forward l x"
| "layer_forward tr keep ReLU x = Inr (map (map (\<lambda>v. max 0 v)) x)"
| "layer_forward tr keep (Dropout p) x = Inr (if tr then dropout keep p x else x)"

text \<open>\<^verbatim>\<open>nn.Sequential\<close>: the layers in order, each on the result of the one before.\<close>

fun Sequential_forward ::
    "bool \<Rightarrow> (nat \<Rightarrow> nat \<Rightarrow> bool) \<Rightarrow> layer list \<Rightarrow> real list list \<Rightarrow> py_error + real list list" where
  "Sequential_forward tr keep [] x = Inr x"
| "Sequential_forward tr keep (l # ls) x =
     (case layer_forward tr keep l x of
        Inl e \<Rightarrow> Inl e
      | Inr y \<Rightarrow> Sequential_forward tr keep ls y)"

text \<open>
  \<^verbatim>\<open>last_hidden_state[:, 0, :]\<close>: the first token's vector of every sample;
  \<^verbatim>\<open>IndexError\<close> when there is no token.
\<close>

definition first_token :: "real list list list \<Rightarrow> py_error + real list list" where
  "first_token h = (if list_all (\<lambda>s. s \<noteq> []) h then Inr (map (\<lambda>s. s ! 0) h) else Inl IndexError)"

text \<open>
  \<^verbatim>\<open>torch.cat([a, b], dim=1)\<close>: row by row; \<^verbatim>\<open>RuntimeError\<close> when the two batches
  differ in size.
\<close>

definition torch_cat_dim1 :: "real list list \<Rightarrow> real list list \<Rightarrow> py_error + real list list" where
  "torch_cat_dim1 a b =
     (if length a = length b then Inr (map (\<lambda>(u, v). u @ v) (zip a b)) else Inl RuntimeError)"

section \<open>The model: \<^verbatim>\<open>MultimodalModel\<close>\<close>

text \<open>
  The two encoders (\<^verbatim>\<open>DistilBertModel\<close>, \<^verbatim>\<open>ViTModel\<close>) are pretrained library
  modules: each is a function from the module's mode (\<open>True\<close> in training) and its
  inputs to \<^verbatim>\<open>last_hidden_state\<close>. The definitions assume nothing about them; a
  theorem that needs the shape of their output says so (\<open>encoders_ok\<close> below). A batch
  of images is a list of \<open>'px\<close>.
\<close>

record 'px MultimodalModel =
  text_model :: "bool \<Rightarrow> int list list \<Rightarrow> int list list \<Rightarrow> real list list list"
  image_model :: "bool \<Rightarrow> 'px list \<Rightarrow> real list list list"
  fusion :: "layer list"
  classifier :: "(task \<times> Linear) list"
  training :: bool

text \<open>
  The values of \<^verbatim>\<open>model.parameters()\<close>: the two encoders (a fine-tuned encoder is
  another function) and the weights and biases of the six linear layers.
\<close>

record 'px parameters =
  text_encoder :: "bool \<Rightarrow> int list list \<Rightarrow> int list list \<Rightarrow> real list list list"
  image_encoder :: "bool \<Rightarrow> 'px list \<Rightarrow> real list list list"
  fusion_weight :: "nat \<Rightarrow> nat \<Rightarrow> real"
  fusion_bias :: "nat \<Rightarrow> real"
  head_weight :: "task \<Rightarrow> nat \<Rightarrow> nat \<Rightarrow> real"
  head_bias :: "task \<Rightarrow> nat \<Rightarrow> real"

text \<open>
  \<^verbatim>\<open>MultimodalModel.__init__\<close>, with the values of the parameters given: the module
  structure is the one of the source, and a new module is in training mode.
\<close>

definition MultimodalModel_init :: "'px parameters \<Rightarrow> 'px MultimodalModel" where
  "MultimodalModel_init p =
     \<lparr>text_model = text_encoder p,
      image_model = image_encoder p,
      fusion = [Linear_layer (nn_Linear (768 * 2) 512 (fusion_weight p) (fusion_bias p)),
                ReLU, Dropout (2 / 10)],
      classifier =
        [(Sentiment, nn_Linear 512 5 (head_weight p Sentiment) (head_bias p Sentiment)),
         (Humor, nn_Linear 512 4 (head_weight p Humor) (head_bias p Humor)),
         (Sarcasm, nn_Linear 512 4 (head_weight p Sarcasm) (head_bias p Sarcasm)),
         (Offensive, nn_Linear 512 4 (head_weight p Offensive) (head_bias p Offensive)),
         (Motivational, nn_Linear 512 2 (head_weight p Motivational) (head_bias p Motivational))],
      training = True\<rparr>"

text \<open>
  The dictionary comprehension of \<^verbatim>\<open>forward\<close>: one entry per key of
  \<^verbatim>\<open>self.classifier\<close>, in its order, every head applied to the same \<open>fused\<close>.
\<close>

fun heads_forward ::
    "(task \<times> Linear) list \<Rightarrow> real list list \<Rightarrow> py_error + (task \<times> real list list) list" where
  "heads_forward [] fused = Inr []"
| "heads_forward ((t, l) # hs) fused =
     (case Linear_forward l fused of
        Inl e \<Rightarrow> Inl e
      | Inr y \<Rightarrow>
          (case heads_forward hs fused of
             Inl e \<Rightarrow> Inl e
           | Inr ys \<Rightarrow> Inr ((t, y) # ys)))"

text \<open>
  \<^verbatim>\<open>MultimodalModel.forward\<close>. \<open>keep\<close> is the draw of the dropout layer for this call.
\<close>

definition MultimodalModel_forward ::
    "'px MultimodalModel \<Rightarrow> (nat \<Rightarrow> nat \<Rightarrow> bool) \<Rightarrow> int list list \<Rightarrow> int list list \<Rightarrow> 'px list
      \<Rightarrow> py_error + (task \<times> real list list) list" where
  "MultimodalModel_forward m keep ids att pixels =
     (case first_token (text_model m (training m) ids att) of
        Inl e \<Rightarrow> Inl e
      | Inr text_out \<Rightarrow>
     (case first_token (image_model m (training m) pixels) of
        Inl e \<Rightarrow> Inl e
      | Inr image_out \<Rightarrow>
     (case torch_cat_dim1 text_out image_out of
        Inl e \<Rightarrow> Inl e
      | Inr cat \<Rightarrow>
     (case Sequential_forward (training m) keep (fusion m) cat of
        Inl e \<Rightarrow> Inl e
      | Inr fused \<Rightarrow> heads_forward (classifier m) fused))))"

text \<open>
  What the encoders must return for a batch of \<open>N\<close> samples for \<^verbatim>\<open>forward\<close> to go
  through: \<open>N\<close> samples, each with a first token of width 768 (the hidden size of the two
  pretrained checkpoints).
\<close>

definition hidden_state_ok :: "nat \<Rightarrow> real list list list \<Rightarrow> bool" where
  "hidden_state_ok N h \<longleftrightarrow> length h = N \<and> list_all (\<lambda>s. s \<noteq> [] \<and> length (s ! 0) = 768) h"

text \<open>
  Parameters for concrete runs: every weight and bias is 0, and each encoder returns one
  token of 768 zeros per sample.
\<close>

definition zero_parameters :: "unit parameters" where
  "zero_parameters =
     \<lparr>text_encoder = (\<lambda>tr ids att. map (\<lambda>s. [replicate 768 0]) ids),
      image_encoder = (\<lambda>tr pixels. map (\<lambda>s. [replicate 768 0]) pixels),
      fusion_weight = (\<lambda>r c. 0), fusion_bias = (\<lambda>r. 0),
      head_weight = (\<lambda>t r c. 0), head_bias = (\<lambda>t r. 0)\<rparr>"

section \<open>Batches and the training loop: \<^verbatim>\<open>train_model\<close>\<close>

text \<open>
  What the \<^verbatim>\<open>DataLoader\<close> yields: the samples of one batch stacked field by field
  (the library's default collation).
\<close>

record 'px batch =
  batch_input_ids :: "int list list"
  batch_attention_mask :: "int list list"
  batch_pixel_values :: "'px list"
  batch_labels :: "task \<Rightarrow> nat list"

definition collate :: "'px sample list \<Rightarrow> 'px batch" where
  "collate ss =
     \<lparr>batch_input_ids = map input_ids ss, batch_attention_mask = map attention_mask ss,
      batch_pixel_values = map pixel_values ss,
      batch_labels = (\<lambda>t. map (\<lambda>s. labels s t) ss)\<rparr>"

text \<open>\<^verbatim>\<open>model(**inputs)\<close>, the inputs being the batch without its labels.\<close>

definition model_call ::
    "'px MultimodalModel \<Rightarrow> (nat \<Rightarrow> nat \<Rightarrow> bool) \<Rightarrow> 'px batch
      \<Rightarrow> py_error + (task \<times> real list list) list" where
  "model_call m keep b =
     MultimodalModel_forward m keep (batch_input_ids b) (batch_attention_mask b)
       (batch_pixel_values b)"

text \<open>
  A loss function takes the scores and the target class indices of a batch and returns
  a number, or raises. \<^verbatim>\<open>criterion\<close> is the dictionary of the notebook: the same
  library loss \<^verbatim>\<open>nn.CrossEntropyLoss()\<close>, a parameter here, under each of the five
  task names.
\<close>

type_synonym loss_fn = "real list list \<Rightarrow> nat list \<Rightarrow> py_error + real"

definition criterion :: "loss_fn \<Rightarrow> task \<Rightarrow> loss_fn option" where
  "criterion cross_entropy_loss =
     map_of (map (\<lambda>task. (task, cross_entropy_loss))
               [Sentiment, Humor, Sarcasm, Offensive, Motivational])"

text \<open>
  \<^verbatim>\<open>sum(criterion[task](outputs[task], labels[task]) for task in outputs)\<close>:
  \<^verbatim>\<open>sum\<close> starts from 0 and adds the terms from the left, in the order of the keys of
  \<^verbatim>\<open>outputs\<close>; a key missing from \<^verbatim>\<open>criterion\<close> raises \<^verbatim>\<open>KeyError\<close>.
\<close>

fun sum_losses ::
    "real \<Rightarrow> (task \<Rightarrow> loss_fn option) \<Rightarrow> (task \<times> real list list) list \<Rightarrow> (task \<Rightarrow> nat list)
      \<Rightarrow> py_error + real" where
  "sum_losses acc crit [] labs = Inr acc"
| "sum_losses acc crit ((t, y) # outputs) labs =
     (case crit t of
        None \<Rightarrow> Inl KeyError
      | Some f \<Rightarrow>
          (case f y (labs t) of
             Inl e \<Rightarrow> Inl e
           | Inr l \<Rightarrow> sum_losses (acc + l) crit outputs labs))"

text \<open>
  The loss of one batch as a function of the parameter values (the last argument): the
  forward pass in training mode, then the sum. This function is what
  \<^verbatim>\<open>loss.backward()\<close> differentiates.
\<close>

definition batch_loss ::
    "(task \<Rightarrow> loss_fn option) \<Rightarrow> (nat \<Rightarrow> nat \<Rightarrow> bool) \<Rightarrow> 'px batch \<Rightarrow> 'px parameters
      \<Rightarrow> py_error + real" where
  "batch_loss crit keep b p =
     (case model_call ((MultimodalModel_init p)\<lparr>training := True\<rparr>) keep b of
        Inl e \<Rightarrow> Inl e
      | Inr outputs \<Rightarrow> sum_losses 0 crit outputs (batch_labels b))"

text \<open>
  The optimizer (\<^verbatim>\<open>AdamW\<close>) and automatic differentiation are library code:
  \<^verbatim>\<open>zero_grad\<close>, \<^verbatim>\<open>backward\<close> and \<^verbatim>\<open>step\<close> together are a function from the loss
  (as a function of the parameters), the current parameter values and the optimizer's
  state to the new values and state. Nothing is assumed about it.
\<close>

type_synonym ('px, 'o) optimizer =
  "('px parameters \<Rightarrow> py_error + real) \<Rightarrow> 'px parameters \<Rightarrow> 'o \<Rightarrow> 'px parameters \<times> 'o"

text \<open>
  The body of the inner loop of \<^verbatim>\<open>train_model\<close> for one batch and the dropout draw
  made while it is processed; it returns the new state and \<^verbatim>\<open>loss.item()\<close>.
\<close>

definition training_step ::
    "('px, 'o) optimizer \<Rightarrow> (task \<Rightarrow> loss_fn option) \<Rightarrow> 'px parameters \<times> 'o
      \<Rightarrow> (nat \<Rightarrow> nat \<Rightarrow> bool) \<times> 'px batch \<Rightarrow> py_error + (('px parameters \<times> 'o) \<times> real)" where
  "training_step opt crit st x =
     (case batch_loss crit (fst x) (snd x) (fst st) of
        Inl e \<Rightarrow> Inl e
      | Inr loss \<Rightarrow> Inr (opt (batch_loss crit (fst x) (snd x)) (fst st) (snd st), loss))"

text \<open>One pass over the dataloader; the losses of the steps are collected in order.\<close>

fun train_epoch ::
    "('px, 'o) optimizer \<Rightarrow> (task \<Rightarrow> loss_fn option) \<Rightarrow> 'px parameters \<times> 'o
      \<Rightarrow> ((nat \<Rightarrow> nat \<Rightarrow> bool) \<times> 'px batch) list
      \<Rightarrow> py_error + (('px parameters \<times> 'o) \<times> real list)" where
  "train_epoch opt crit st [] = Inr (st, [])"
| "train_epoch opt crit st (x # xs) =
     (case training_step opt crit st x of
        Inl e \<Rightarrow> Inl e
      | Inr (st', loss) \<Rightarrow>
          (case train_epoch opt crit st' xs of
             Inl e \<Rightarrow> Inl e
           | Inr (st'', losses) \<Rightarrow> Inr (st'', loss # losses)))"

text \<open>
  The outer loop over \<^verbatim>\<open>range(epochs)\<close>. \<open>dataloader e\<close> is the sequence of batches
  the dataloader yields in pass \<open>e\<close> (it shuffles, so the passes differ), and its length
  is \<^verbatim>\<open>len(dataloader)\<close>. After each pass the source prints
  \<^verbatim>\<open>total_loss/len(dataloader)\<close>, which raises \<^verbatim>\<open>ZeroDivisionError\<close> for a
  dataloader without batches. The log has one entry per pass: the losses of its steps
  and the printed average.
\<close>

fun train_epochs ::
    "('px, 'o) optimizer \<Rightarrow> (task \<Rightarrow> loss_fn option) \<Rightarrow> 'px parameters \<times> 'o
      \<Rightarrow> (nat \<Rightarrow> ((nat \<Rightarrow> nat \<Rightarrow> bool) \<times> 'px batch) list) \<Rightarrow> nat list
      \<Rightarrow> py_error + (('px parameters \<times> 'o) \<times> (real list \<times> real) list)" where
  "train_epochs opt crit st dataloader [] = Inr (st, [])"
| "train_epochs opt crit st dataloader (e # es) =
     (case train_epoch opt crit st (dataloader e) of
        Inl err \<Rightarrow> Inl err
      | Inr (st', losses) \<Rightarrow>
          if length (dataloader e) = 0 then Inl ZeroDivisionError
          else
            (case train_epochs opt crit st' dataloader es of
               Inl err \<Rightarrow> Inl err
             | Inr (st'', history) \<Rightarrow>
                 Inr (st'', (losses, foldl (+) 0 losses / real (length (dataloader e))) # history)))"

text \<open>
  \<^verbatim>\<open>train_model(model, dataloader, optimizer, criterion, epochs=2)\<close>: the model is given
  by its parameter values and is in training mode (\<^verbatim>\<open>model.train()\<close>) in every step;
  the result is the trained values, the optimizer's state and the log.
\<close>

definition train_model ::
    "'px parameters \<Rightarrow> (nat \<Rightarrow> ((nat \<Rightarrow> nat \<Rightarrow> bool) \<times> 'px batch) list) \<Rightarrow> ('px, 'o) optimizer \<Rightarrow> 'o
      \<Rightarrow> (task \<Rightarrow> loss_fn option) \<Rightarrow> nat
      \<Rightarrow> py_error + (('px parameters \<times> 'o) \<times> (real list \<times> real) list)" where
  "train_model p dataloader opt s crit epochs =
     train_epochs opt crit (p, s) dataloader [0..<epochs]"

text \<open>
  To count the steps of the optimizer: \<open>counting opt\<close> updates the parameters as
  \<open>opt\<close> does and adds one to a counter kept beside the optimizer's state.
\<close>

definition counting :: "('px, 'o) optimizer \<Rightarrow> ('px, 'o \<times> nat) optimizer" where
  "counting opt L q s = (case opt L q (fst s) of (q', s') \<Rightarrow> (q', (s', Suc (snd s))))"

section \<open>The evaluation loop: \<^verbatim>\<open>evaluate_model\<close>\<close>

text \<open>
  \<^verbatim>\<open>torch.argmax(scores, dim=1)\<close>: for every row the position of its first largest
  entry; a row without entries raises.
\<close>

fun argmax_from :: "nat \<Rightarrow> real \<Rightarrow> nat \<Rightarrow> real list \<Rightarrow> nat" where
  "argmax_from best hi i [] = best"
| "argmax_from best hi i (v # vs) =
     (if hi < v then argmax_from i v (Suc i) vs else argmax_from best hi (Suc i) vs)"

definition argmax_row :: "real list \<Rightarrow> py_error + nat" where
  "argmax_row row = (case row of [] \<Rightarrow> Inl IndexError | v # vs \<Rightarrow> Inr (argmax_from 0 v 1 vs))"

fun argmax_dim1 :: "real list list \<Rightarrow> py_error + nat list" where
  "argmax_dim1 [] = Inr []"
| "argmax_dim1 (row # rows) =
     (case argmax_row row of
        Inl e \<Rightarrow> Inl e
      | Inr i \<Rightarrow> (case argmax_dim1 rows of Inl e \<Rightarrow> Inl e | Inr others \<Rightarrow> Inr (i # others)))"

text \<open>\<^verbatim>\<open>preds = {task: torch.argmax(outputs[task], dim=1) for task in outputs}\<close>.\<close>

fun batch_preds :: "(task \<times> real list list) list \<Rightarrow> py_error + (task \<times> nat list) list" where
  "batch_preds [] = Inr []"
| "batch_preds ((t, y) # outputs) =
     (case argmax_dim1 y of
        Inl e \<Rightarrow> Inl e
      | Inr ps \<Rightarrow>
          (case batch_preds outputs of Inl e \<Rightarrow> Inl e | Inr rest \<Rightarrow> Inr ((t, ps) # rest)))"

text \<open>
  The two accumulators \<^verbatim>\<open>all_preds\<close> and \<^verbatim>\<open>all_labels\<close> are dictionaries over the
  five task names with a list each; the loop \<^verbatim>\<open>for task in preds\<close> extends both lists
  of every task of the batch.
\<close>

fun extend_all ::
    "(task \<times> nat list) list \<Rightarrow> (task \<Rightarrow> nat list) \<Rightarrow> (task \<Rightarrow> nat list) \<times> (task \<Rightarrow> nat list)
      \<Rightarrow> (task \<Rightarrow> nat list) \<times> (task \<Rightarrow> nat list)" where
  "extend_all [] labs acc = acc"
| "extend_all ((t, ps) # preds) labs acc =
     extend_all preds labs
       ((fst acc)(t := fst acc t @ ps), (snd acc)(t := snd acc t @ labs t))"

text \<open>
  The model is a Python object that every statement of \<^verbatim>\<open>evaluate_model\<close> which is
  handed it could change, so these statements are state transformers on the object.
  \<^verbatim>\<open>model.eval()\<close> switches the mode and nothing else. \<^verbatim>\<open>model(**inputs)\<close> runs
  \<^verbatim>\<open>forward\<close> on the object and returns the object after the call with the outputs:
  \<^verbatim>\<open>forward\<close>, as the source has it, reads \<^verbatim>\<open>self.text_model\<close>,
  \<^verbatim>\<open>self.image_model\<close>, \<^verbatim>\<open>self.fusion\<close> and \<^verbatim>\<open>self.classifier\<close>, assigns no
  attribute of \<^verbatim>\<open>self\<close> and updates no tensor in place, and a forward pass of the
  library modules it calls leaves their parameters as they are.
\<close>

definition Module_eval :: "'px MultimodalModel \<Rightarrow> 'px MultimodalModel" where
  "Module_eval m = m\<lparr>training := False\<rparr>"

definition Module_call ::
    "'px MultimodalModel \<Rightarrow> (nat \<Rightarrow> nat \<Rightarrow> bool) \<Rightarrow> 'px batch
      \<Rightarrow> 'px MultimodalModel \<times> (py_error + (task \<times> real list list) list)" where
  "Module_call m keep b = (m, model_call m keep b)"

text \<open>
  The loop over the dataloader, under \<^verbatim>\<open>torch.no_grad()\<close> and after
  \<^verbatim>\<open>model.eval()\<close>: the dropout layer draws nothing in evaluation mode, so the draw
  passed to \<^verbatim>\<open>forward\<close> is not read. The model object is threaded through the
  iterations: each one calls the object the one before has left, and the loop returns
  the object it ends with, also when a batch raises.
\<close>

fun evaluate_batches ::
    "'px MultimodalModel \<Rightarrow> (task \<Rightarrow> nat list) \<times> (task \<Rightarrow> nat list) \<Rightarrow> 'px batch list
      \<Rightarrow> 'px MultimodalModel \<times> (py_error + ((task \<Rightarrow> nat list) \<times> (task \<Rightarrow> nat list)))" where
  "evaluate_batches m acc [] = (m, Inr acc)"
| "evaluate_batches m acc (b # bs) =
     (case Module_call m (\<lambda>i j. True) b of
        (m1, Inl e) \<Rightarrow> (m1, Inl e)
      | (m1, Inr outputs) \<Rightarrow>
          (case batch_preds outputs of
             Inl e \<Rightarrow> (m1, Inl e)
           | Inr preds \<Rightarrow> evaluate_batches m1 (extend_all preds (batch_labels b) acc) bs))"

text \<open>
  Modelled from the spec: \<^verbatim>\<open>accuracy_score\<close> and \<^verbatim>\<open>f1_score(average="macro")\<close> are
  functions of scikit-learn, whose code is not part of the notebook. Accuracy is the
  share of positions where prediction and ground truth agree. Macro-F1 is, in the words
  of the spec's glossary, the unweighted mean of per-class F1 scores: the classes are
  those that occur in the ground truth or in the predictions, in increasing order, and
  the F1 score of a class is the harmonic mean of its precision and its recall, 0 when
  undefined. Both raise \<^verbatim>\<open>ValueError\<close> for lists of different lengths.
\<close>

definition accuracy_score :: "nat list \<Rightarrow> nat list \<Rightarrow> py_error + real" where
  "accuracy_score y_true y_pred =
     (if length y_true \<noteq> length y_pred then Inl ValueError
      else Inr (real (length (filter (\<lambda>(t, p). t = p) (zip y_true y_pred))) /
                real (length y_true)))"

definition class_count :: "(nat \<Rightarrow> nat \<Rightarrow> bool) \<Rightarrow> nat list \<Rightarrow> nat list \<Rightarrow> real" where
  "class_count P y_true y_pred = real (length (filter (\<lambda>(t, p). P t p) (zip y_true y_pred)))"

definition f1_of_class :: "nat list \<Rightarrow> nat list \<Rightarrow> nat \<Rightarrow> real" where
  "f1_of_class y_true y_pred c =
     (let tp = class_count (\<lambda>t p. t = c \<and> p = c) y_true y_pred;
          fp = class_count (\<lambda>t p. t \<noteq> c \<and> p = c) y_true y_pred;
          fn = class_count (\<lambda>t p. t = c \<and> p \<noteq> c) y_true y_pred;
          precision = (if tp + fp = 0 then 0 else tp / (tp + fp));
          recall = (if tp + fn = 0 then 0 else tp / (tp + fn))
      in if precision + recall = 0 then 0
         else 2 * precision * recall / (precision + recall))"

definition f1_score_macro :: "nat list \<Rightarrow> nat list \<Rightarrow> py_error + real" where
  "f1_score_macro y_true y_pred =
     (if length y_true \<noteq> length y_pred then Inl ValueError
      else
        (let classes = sorted_list_of_set (set y_true \<union> set y_pred)
         in Inr ((\<Sum>c\<leftarrow>classes. f1_of_class y_true y_pred c) / real (length classes))))"

record scores =
  Accuracy :: real
  F1_Score :: real

text \<open>
  The last loop of \<^verbatim>\<open>evaluate_model\<close>, over the keys of the global \<^verbatim>\<open>criterion\<close>:
  the two metrics of every task from its two accumulated lists.
\<close>

fun task_metrics ::
    "task list \<Rightarrow> (task \<Rightarrow> nat list) \<times> (task \<Rightarrow> nat list) \<Rightarrow> py_error + (task \<times> scores) list" where
  "task_metrics [] acc = Inr []"
| "task_metrics (t # ts) acc =
     (case accuracy_score (snd acc t) (fst acc t) of
        Inl e \<Rightarrow> Inl e
      | Inr a \<Rightarrow>
          (case f1_score_macro (snd acc t) (fst acc t) of
             Inl e \<Rightarrow> Inl e
           | Inr f \<Rightarrow>
               (case task_metrics ts acc of
                  Inl e \<Rightarrow> Inl e
                | Inr rest \<Rightarrow> Inr ((t, \<lparr>Accuracy = a, F1_Score = f\<rparr>) # rest))))"

text \<open>
  \<^verbatim>\<open>evaluate_model(model, dataloader)\<close>: \<^verbatim>\<open>model.eval()\<close>, the loop, then the
  metrics. The result is the model object as the call leaves it and the metrics, or the
  exception raised.
\<close>

definition evaluate_model ::
    "'px MultimodalModel \<Rightarrow> 'px batch list
      \<Rightarrow> 'px MultimodalModel \<times> (py_error + (task \<times> scores) list)" where
  "evaluate_model m dataloader =
     (case evaluate_batches (Module_eval m) (\<lambda>task. [], \<lambda>task. []) dataloader of
        (m', Inl e) \<Rightarrow> (m', Inl e)
      | (m', Inr acc) \<Rightarrow>
          (m', task_metrics [Sentiment, Humor, Sarcasm, Offensive, Motivational] acc))"

section \<open>Shapes, and the model in the words of the specification\<close>

text \<open>A batch of \<open>N\<close> rows of width \<open>k\<close>: a tensor of shape \<open>N \<times> k\<close>.\<close>

definition row_shape :: "nat \<Rightarrow> nat \<Rightarrow> real list list \<Rightarrow> bool" where
  "row_shape N k y \<longleftrightarrow> length y = N \<and> list_all (\<lambda>v. length v = k) y"

text \<open>The scores of one head of the model built by \<^verbatim>\<open>__init__\<close> on a batch of fused vectors.\<close>

definition head_scores :: "'px parameters \<Rightarrow> task \<Rightarrow> real list list \<Rightarrow> real list list" where
  "head_scores p t fused =
     map (affine (nn_Linear 512 (classifier_out_features t) (head_weight p t) (head_bias p t))) fused"

text \<open>What the three layers of \<^verbatim>\<open>fusion\<close> compute on a batch of concatenated vectors.\<close>

definition fused_of :: "'px parameters \<Rightarrow> bool \<Rightarrow> (nat \<Rightarrow> nat \<Rightarrow> bool) \<Rightarrow> real list list \<Rightarrow> real list list" where
  "fused_of p tr keep cat =
     (let h = map (map (\<lambda>v. max 0 v))
                (map (affine (nn_Linear (768 * 2) 512 (fusion_weight p) (fusion_bias p))) cat)
      in if tr then dropout keep (2 / 10) h else h)"

text \<open>
  The contract of the two pretrained encoders: for every batch, one sequence of hidden
  states per sample, with a first token of width 768.
\<close>

definition encoders_ok :: "'px parameters \<Rightarrow> bool" where
  "encoders_ok p \<longleftrightarrow>
     (\<forall>tr ids att. hidden_state_ok (length ids) (text_encoder p tr ids att)) \<and>
     (\<forall>tr pixels. hidden_state_ok (length pixels) (image_encoder p tr pixels))"

text \<open>
  The model as the specification words it (claim C8), sample by sample. The pooled
  representation of a modality is the first token's final hidden state.
\<close>

definition spec_pooled :: "real list list \<Rightarrow> real list" where
  "spec_pooled states = hd states"

text \<open>A linear layer from width \<open>n\<close> to width \<open>k\<close>.\<close>

definition spec_linear :: "nat \<Rightarrow> nat \<Rightarrow> (nat \<Rightarrow> nat \<Rightarrow> real) \<Rightarrow> (nat \<Rightarrow> real) \<Rightarrow> real list \<Rightarrow> real list" where
  "spec_linear n k W b v = map (\<lambda>r. (\<Sum>c<n. W r c * v ! c) + b r) [0..<k]"

text \<open>The activation.\<close>

definition spec_activation :: "real \<Rightarrow> real" where
  "spec_activation v = (if 0 < v then v else 0)"

text \<open>Dropout with rate \<open>q\<close> on one vector; \<open>kept\<close> is the draw for this sample.\<close>

definition spec_dropout :: "bool \<Rightarrow> (nat \<Rightarrow> bool) \<Rightarrow> real \<Rightarrow> real list \<Rightarrow> real list" where
  "spec_dropout tr kept q v =
     (if tr then map (\<lambda>j. if kept j then v ! j / (1 - q) else 0) [0..<length v] else v)"

text \<open>
  The shared fused vector of one sample: the two pooled vectors concatenated, then the
  shared linear layer from 1536 to 512, the activation and dropout.
\<close>

definition spec_fused ::
    "'px parameters \<Rightarrow> bool \<Rightarrow> (nat \<Rightarrow> bool) \<Rightarrow> real list list \<Rightarrow> real list list \<Rightarrow> real list" where
  "spec_fused p tr kept text_states image_states =
     spec_dropout tr kept (2 / 10)
       (map spec_activation
          (spec_linear 1536 512 (fusion_weight p) (fusion_bias p)
             (spec_pooled text_states @ spec_pooled image_states)))"

text \<open>
  Five independent linear heads on the shared fused vector of every sample; the scores
  are the heads' outputs as they are (no normalisation).
\<close>

definition spec_forward ::
    "'px parameters \<Rightarrow> bool \<Rightarrow> (nat \<Rightarrow> nat \<Rightarrow> bool) \<Rightarrow> real list list list \<Rightarrow> real list list list
      \<Rightarrow> (task \<times> real list list) list" where
  "spec_forward p tr keep text_h image_h =
     map (\<lambda>t. (t, map (\<lambda>i. spec_linear 512 (classifier_out_features t) (head_weight p t) (head_bias p t)
                              (spec_fused p tr (keep i) (text_h ! i) (image_h ! i)))
                   [0..<length text_h]))
       [Sentiment, Humor, Sarcasm, Offensive, Motivational]"

section \<open>The training loop in the words of the specification\<close>

text \<open>
  Claim C5 in definitions of its own, to compare \<^verbatim>\<open>train_model\<close> with.
  \<open>scores_of outputs t\<close> is the head output of task \<open>t\<close> (\<^verbatim>\<open>outputs[task]\<close>).
\<close>

definition scores_of :: "(task \<times> real list list) list \<Rightarrow> task \<Rightarrow> real list list" where
  "scores_of outputs t = (case map_of outputs t of None \<Rightarrow> [] | Some y \<Rightarrow> y)"

text \<open>The sum of the losses of a list of tasks; the first loss that raises, raises.\<close>

fun sum_results :: "(py_error + real) list \<Rightarrow> py_error + real" where
  "sum_results [] = Inr 0"
| "sum_results (r # rs) =
     (case r of
        Inl e \<Rightarrow> Inl e
      | Inr l \<Rightarrow> (case sum_results rs of Inl e \<Rightarrow> Inl e | Inr rest \<Rightarrow> Inr (l + rest)))"

text \<open>
  The scalar objective of one batch at the parameter values \<open>q\<close>: the forward pass in
  training mode, then the sum over the five tasks of the loss between that task's head
  output and that task's labels.
\<close>

definition spec_summed_loss ::
    "loss_fn \<Rightarrow> (nat \<Rightarrow> nat \<Rightarrow> bool) \<Rightarrow> 'px batch \<Rightarrow> 'px parameters \<Rightarrow> py_error + real" where
  "spec_summed_loss ce keep b q =
     (case model_call ((MultimodalModel_init q)\<lparr>training := True\<rparr>) keep b of
        Inl e \<Rightarrow> Inl e
      | Inr outputs \<Rightarrow>
          sum_results
            (map (\<lambda>t. ce (scores_of outputs t) (batch_labels b t))
               [Sentiment, Humor, Sarcasm, Offensive, Motivational]))"

text \<open>
  Backward pass and optimizer step on that objective: the optimizer receives the
  objective as a function of the parameters, the current values and its own state.
\<close>

definition spec_step ::
    "('px, 'o) optimizer \<Rightarrow> loss_fn \<Rightarrow> 'px parameters \<times> 'o \<Rightarrow> (nat \<Rightarrow> nat \<Rightarrow> bool) \<times> 'px batch
      \<Rightarrow> 'px parameters \<times> 'o" where
  "spec_step opt ce st x = opt (spec_summed_loss ce (fst x) (snd x)) (fst st) (snd st)"

text \<open>
  The batches of \<open>epochs\<close> passes over the dataloader, in the order the loop meets them,
  and the state in which the loop reaches the \<open>i\<close>-th of them: the steps on the batches
  before it, applied in order to the initial state.
\<close>

definition all_steps ::
    "(nat \<Rightarrow> ((nat \<Rightarrow> nat \<Rightarrow> bool) \<times> 'px batch) list) \<Rightarrow> nat
      \<Rightarrow> ((nat \<Rightarrow> nat \<Rightarrow> bool) \<times> 'px batch) list" where
  "all_steps dataloader epochs = concat (map dataloader [0..<epochs])"

definition spec_state_before ::
    "('px, 'o) optimizer \<Rightarrow> loss_fn \<Rightarrow> 'px parameters \<times> 'o
      \<Rightarrow> ((nat \<Rightarrow> nat \<Rightarrow> bool) \<times> 'px batch) list \<Rightarrow> nat \<Rightarrow> 'px parameters \<times> 'o" where
  "spec_state_before opt ce st steps i = foldl (spec_step opt ce) st (take i steps)"

text \<open>
  A small table for concrete runs: the tokenizer, the file reader and the image
  processor are stand-ins (label encoding does not read their results).
\<close>

definition demo_row :: "string \<Rightarrow> string \<Rightarrow> row" where
  "demo_row s m =
     \<lparr>image_name = ''image_1.jpg'', text_corrected = ''LOOK THERE MY FRIEND'',
      overall_sentiment = s, humour = ''hilarious'', sarcasm = ''general'',
      offensive = ''not_offensive'', motivational = m\<rparr>"

definition demo_dataset :: "row list \<Rightarrow> (unit, unit) MemeDataset" where
  "demo_dataset rs =
     \<lparr>labels_df = rs, image_dir = ''images'',
      tokenizer = (\<lambda>t n. (replicate n 0, replicate n 0)), text_max_length = 128,
      open_image = (\<lambda>d n. Inr ()), image_processor = (\<lambda>i. ())\<rparr>"

text \<open>
  For concrete runs of the training loop: the cross-entropy of a batch with mean
  reduction, the formula the library documents for \<^verbatim>\<open>nn.CrossEntropyLoss()\<close>. It
  raises for a target list of another length and for a class index outside the row.
\<close>

definition cross_entropy :: loss_fn where
  "cross_entropy y target =
     (if length y \<noteq> length target then Inl ValueError
      else if \<not> list_all (\<lambda>(row, c). c < length row) (zip y target) then Inl IndexError
      else Inr ((\<Sum>(row, c)\<leftarrow>zip y target. ln (\<Sum>v\<leftarrow>row. exp v) - row ! c) / real (length y)))"

text \<open>A batch of two samples, and the scores the all-zero parameters give on it.\<close>

definition demo_batch :: "unit batch" where
  "demo_batch =
     \<lparr>batch_input_ids = [[101, 2298, 102], [101, 2190, 102]],
      batch_attention_mask = [[1, 1, 1], [1, 1, 1]],
      batch_pixel_values = [(), ()],
      batch_labels = (\<lambda>t. [0, 1])\<rparr>"

definition zero_outputs :: "(task \<times> real list list) list" where
  "zero_outputs =
     [(Sentiment, [[0, 0, 0, 0, 0], [0, 0, 0, 0, 0]]),
      (Humor, [[0, 0, 0, 0], [0, 0, 0, 0]]),
      (Sarcasm, [[0, 0, 0, 0], [0, 0, 0, 0]]),
      (Offensive, [[0, 0, 0, 0], [0, 0, 0, 0]]),
      (Motivational, [[0, 0], [0, 0]])]"

text \<open>
  A batch as the dataloader builds it: as many images and, for every task, as many
  labels as token sequences.
\<close>

definition batch_ok :: "'px batch \<Rightarrow> bool" where
  "batch_ok b \<longleftrightarrow>
     length (batch_pixel_values b) = length (batch_input_ids b) \<and>
     (\<forall>t. length (batch_labels b t) = length (batch_input_ids b))"

text \<open>The prediction for one non-empty row of scores, and the predictions of the model with
  parameters \<open>p\<close>, in evaluation mode, for the samples of a batch.\<close>

definition first_max :: "real list \<Rightarrow> nat" where
  "first_max row = argmax_from 0 (hd row) 1 (tl row)"

definition eval_preds :: "'px parameters \<Rightarrow> 'px batch \<Rightarrow> task \<Rightarrow> nat list" where
  "eval_preds p b t =
     map first_max
       (head_scores p t
          (fused_of p False (\<lambda>i j. True)
             (map (\<lambda>(u, v). u @ v)
                (zip (map (\<lambda>s. s ! 0) (text_encoder p False (batch_input_ids b) (batch_attention_mask b)))
                     (map (\<lambda>s. s ! 0) (image_encoder p False (batch_pixel_values b)))))))"

text \<open>A second batch for concrete runs, with one sample.\<close>

definition last_batch :: "unit batch" where
  "last_batch =
     \<lparr>batch_input_ids = [[101, 2293, 102]], batch_attention_mask = [[1, 1, 1]],
      batch_pixel_values = [()], batch_labels = (\<lambda>t. [1])\<rparr>"

section \<open>Label encoding: lemmas\<close>

text \<open>
  The vocabularies are unfolded only where a proof names them: with symbolic label
  strings the simplifier would otherwise compare every character.
\<close>

declare label_maps.simps [simp del]

lemma list_index_Inr_iff: "(\<exists>i. list_index xs x = Inr i) \<longleftrightarrow> x \<in> set xs"
  by (induction xs) (auto split: sum.splits)

lemma list_index_not_mem: "x \<notin> set xs \<Longrightarrow> list_index xs x = Inl ValueError"
  by (induction xs) auto

lemma list_index_nth: "list_index xs x = Inr i \<Longrightarrow> i < length xs \<and> xs ! i = x"
proof (induction xs arbitrary: i)
  case Nil
  then show ?case by simp
next
  case (Cons y ys)
  show ?case
  proof (cases "y = x")
    case True
    with Cons.prems show ?thesis by simp
  next
    case False
    with Cons.prems obtain j where j: "list_index ys x = Inr j" "i = Suc j"
      by (auto split: sum.splits)
    from Cons.IH [OF j(1)] j(2) show ?thesis by simp
  qed
qed

lemma encode_labels_lookup:
  assumes "encode_labels r = Inr labs" and "t \<noteq> Motivational"
  shows "list_index (label_maps t) (label_of r t) = Inr (labs t)"
  using assms
  by (cases t) (auto simp: encode_labels_def split: sum.splits)

lemma encode_labels_motivational:
  assumes "encode_labels r = Inr labs"
  shows "labs Motivational = (if motivational r = ''motivational'' then 1 else 0)"
  using assms by (auto simp: encode_labels_def split: sum.splits)

lemma encode_labels_unknown:
  assumes "t \<noteq> Motivational" and "label_of r t \<notin> set (label_maps t)"
  shows "encode_labels r = Inl ValueError"
proof -
  have miss: "list_index (label_maps t) (label_of r t) = Inl ValueError"
    using assms(2) by (rule list_index_not_mem)
  have err: "e = ValueError" if "list_index xs x = Inl e" for xs :: "string list" and x e
    using that by (induction xs) (auto split: if_splits sum.splits)
  show ?thesis
    using assms(1) miss
    by (cases t) (auto simp: encode_labels_def split: sum.splits dest: err)
qed

lemma getitem_Inr_D:
  assumes "MemeDataset_getitem ds idx = Inr s"
  shows "\<exists>r. iloc (labels_df ds) idx = Inr r \<and> encode_labels r = Inr (labels s)"
  using assms
  by (auto simp: MemeDataset_getitem_def Let_def split: sum.splits)

text \<open>The definitions a concrete run of \<^verbatim>\<open>__getitem__\<close> unfolds.\<close>

lemmas demo_eval = MemeDataset_getitem_def demo_dataset_def demo_row_def iloc_def
      encode_labels_def label_maps.simps decode_label_def

section \<open>Claims about the dataset adapter\<close>

text \<open>
  Claim C1, as the code has it. For the four tasks encoded with \<^verbatim>\<open>.index\<close> (sentiment,
  humor, sarcasm, offensive): when the row's label is not in the task's vocabulary list,
  \<^verbatim>\<open>__getitem__\<close> raises and returns no encoded index; the exception is the lookup's
  \<^verbatim>\<open>ValueError\<close>, unless reading the image file has raised before the labels are
  encoded. The motivational label is not looked up: when the four other labels are in
  their vocabularies and the image is read, \<^verbatim>\<open>__getitem__\<close> returns, whatever the
  motivational label is, with class index 1 for \<^verbatim>\<open>'motivational'\<close> and 0 for every
  other string.
\<close>

theorem getitem_unknown_label:
  assumes "iloc (labels_df ds) idx = Inr r"
  shows "(t \<noteq> Motivational \<and> label_of r t \<notin> set (label_maps t) \<longrightarrow>
            MemeDataset_getitem ds idx =
              Inl (case open_image ds (image_dir ds) (image_name r) of
                     Inl e \<Rightarrow> e | Inr img \<Rightarrow> ValueError)) \<and>
         ((\<forall>u. u \<noteq> Motivational \<longrightarrow> label_of r u \<in> set (label_maps u)) \<and>
          open_image ds (image_dir ds) (image_name r) = Inr im \<longrightarrow>
            (\<exists>s. MemeDataset_getitem ds idx = Inr s \<and>
                 labels s Motivational = (if motivational r = ''motivational'' then 1 else 0)))"
proof (intro conjI impI)
  assume "t \<noteq> Motivational \<and> label_of r t \<notin> set (label_maps t)"
  then have "encode_labels r = Inl ValueError"
    using encode_labels_unknown [of t r] by blast
  with assms show "MemeDataset_getitem ds idx =
      Inl (case open_image ds (image_dir ds) (image_name r) of
             Inl e \<Rightarrow> e | Inr img \<Rightarrow> ValueError)"
    by (simp add: MemeDataset_getitem_def Let_def split: sum.splits)
next
  assume a: "(\<forall>u. u \<noteq> Motivational \<longrightarrow> label_of r u \<in> set (label_maps u)) \<and>
          open_image ds (image_dir ds) (image_name r) = Inr im"
  have known: "\<exists>i. list_index (label_maps u) (label_of r u) = Inr i" if "u \<noteq> Motivational" for u
    using a that by (simp add: list_index_Inr_iff)
  from known [of Sentiment] known [of Humor] known [of Sarcasm] known [of Offensive]
  obtain labs where "encode_labels r = Inr labs"
    by (auto simp: encode_labels_def)
  with assms a encode_labels_motivational [OF this]
  show "\<exists>s. MemeDataset_getitem ds idx = Inr s \<and>
            labels s Motivational = (if motivational r = ''motivational'' then 1 else 0)"
    by (simp add: MemeDataset_getitem_def Let_def)
qed

text \<open>
  C1 at concrete rows: the sentiment label \<^verbatim>\<open>'angry'\<close> raises \<^verbatim>\<open>ValueError\<close>; the
  motivational label \<^verbatim>\<open>'maybe'\<close> is encoded as 0.
\<close>

theorem getitem_unknown_label_witness:
  "MemeDataset_getitem (demo_dataset [demo_row ''angry'' ''motivational'']) 0 = Inl ValueError \<and>
   (\<exists>s. MemeDataset_getitem (demo_dataset [demo_row ''neutral'' ''maybe'']) 0 = Inr s \<and>
        labels s Motivational = 0)"
proof
  let ?r = "demo_row ''angry'' ''motivational''"
  let ?ds = "demo_dataset [?r]"
  have row: "iloc (labels_df ?ds) 0 = Inr ?r"
    by (simp add: demo_dataset_def iloc_def)
  have unknown: "Sentiment \<noteq> Motivational \<and> label_of ?r Sentiment \<notin> set (label_maps Sentiment)"
    by (simp add: demo_row_def label_maps.simps)
  from getitem_unknown_label [OF row, of Sentiment] unknown
  show "MemeDataset_getitem ?ds 0 = Inl ValueError"
    by (simp add: demo_dataset_def)
next
  let ?r = "demo_row ''neutral'' ''maybe''"
  let ?ds = "demo_dataset [?r]"
  have row: "iloc (labels_df ?ds) 0 = Inr ?r"
    by (simp add: demo_dataset_def iloc_def)
  have known: "\<forall>u. u \<noteq> Motivational \<longrightarrow> label_of ?r u \<in> set (label_maps u)"
  proof (intro allI impI)
    fix u :: task
    assume "u \<noteq> Motivational"
    then show "label_of ?r u \<in> set (label_maps u)"
      by (cases u) (simp_all add: demo_row_def label_maps.simps)
  qed
  have img: "open_image ?ds (image_dir ?ds) (image_name ?r) = Inr ()"
    by (simp add: demo_dataset_def)
  from getitem_unknown_label [OF row, of _ "()"] known img
  show "\<exists>s. MemeDataset_getitem ?ds 0 = Inr s \<and> labels s Motivational = 0"
    by (simp add: demo_row_def)
qed

text \<open>
  C1 as stated, for all five tasks, fails at the motivational task: the label
  \<^verbatim>\<open>'maybe'\<close> is not in \<^verbatim>\<open>label_maps['motivational']\<close>, and \<^verbatim>\<open>__getitem__\<close>
  returns a sample whose motivational class index is 0.
\<close>

theorem getitem_unknown_motivational_counterexample:
  "iloc (labels_df (demo_dataset [demo_row ''neutral'' ''maybe''])) 0 =
     Inr (demo_row ''neutral'' ''maybe'') \<and>
   label_of (demo_row ''neutral'' ''maybe'') Motivational \<notin> set (label_maps Motivational) \<and>
   (case MemeDataset_getitem (demo_dataset [demo_row ''neutral'' ''maybe'']) 0 of
      Inl e \<Rightarrow> False
    | Inr s \<Rightarrow> labels s Motivational = 0)"
  by (simp add: demo_eval)

text \<open>
  Claim C2, as the code has it. When \<^verbatim>\<open>__getitem__\<close> returns, indexing the vocabulary
  list at the stored class index gives back the row's label for sentiment, humor, sarcasm
  and offensive, and for motivational when the row's label is one of the two vocabulary
  entries; a motivational label outside the vocabulary is stored as 0 and decodes to
  \<^verbatim>\<open>'not_motivational'\<close>.
\<close>

theorem label_round_trip:
  assumes "MemeDataset_getitem ds idx = Inr s" and "iloc (labels_df ds) idx = Inr r"
  shows "(t \<noteq> Motivational \<or> motivational r \<in> set (label_maps Motivational) \<longrightarrow>
            decode_label t (labels s t) = Inr (label_of r t)) \<and>
         (motivational r \<notin> set (label_maps Motivational) \<longrightarrow>
            decode_label Motivational (labels s Motivational) = Inr ''not_motivational'')"
proof -
  from getitem_Inr_D [OF assms(1)] assms(2) have enc: "encode_labels r = Inr (labels s)"
    by auto
  have four: "decode_label t (labels s t) = Inr (label_of r t)" if "t \<noteq> Motivational"
    using list_index_nth [OF encode_labels_lookup [OF enc that]]
    by (simp add: decode_label_def)
  have m: "labels s Motivational = (if motivational r = ''motivational'' then 1 else 0)"
    using enc by (rule encode_labels_motivational)
  have known: "decode_label Motivational (labels s Motivational) = Inr (motivational r)"
    if "motivational r \<in> set (label_maps Motivational)"
    using that m by (auto simp: decode_label_def label_maps.simps)
  have unknown: "decode_label Motivational (labels s Motivational) = Inr ''not_motivational''"
    if "motivational r \<notin> set (label_maps Motivational)"
    using that m by (auto simp: decode_label_def label_maps.simps)
  show ?thesis
    using four known unknown by (cases t) auto
qed

text \<open>C2 at concrete rows, one with a known and one with an unknown motivational label.\<close>

theorem label_round_trip_witness:
  "(case MemeDataset_getitem (demo_dataset [demo_row ''neutral'' ''motivational'']) 0 of
      Inl e \<Rightarrow> False
    | Inr s \<Rightarrow> decode_label Sentiment (labels s Sentiment) = Inr ''neutral'' \<and>
               decode_label Motivational (labels s Motivational) = Inr ''motivational'') \<and>
   (case MemeDataset_getitem (demo_dataset [demo_row ''neutral'' ''maybe'']) 0 of
      Inl e \<Rightarrow> False
    | Inr s \<Rightarrow> decode_label Motivational (labels s Motivational) = Inr ''not_motivational'')"
proof
  let ?r = "demo_row ''neutral'' ''motivational''"
  let ?ds = "demo_dataset [?r]"
  have row: "iloc (labels_df ?ds) 0 = Inr ?r"
    by (simp add: demo_dataset_def iloc_def)
  obtain s where s: "MemeDataset_getitem ?ds 0 = Inr s"
    by (simp add: demo_eval)
  from label_round_trip [OF s row, of Sentiment] label_round_trip [OF s row, of Motivational] s
  show "case MemeDataset_getitem ?ds 0 of
      Inl e \<Rightarrow> False
    | Inr s \<Rightarrow> decode_label Sentiment (labels s Sentiment) = Inr ''neutral'' \<and>
               decode_label Motivational (labels s Motivational) = Inr ''motivational''"
    by (simp add: demo_row_def label_maps.simps)
next
  let ?r = "demo_row ''neutral'' ''maybe''"
  let ?ds = "demo_dataset [?r]"
  have row: "iloc (labels_df ?ds) 0 = Inr ?r"
    by (simp add: demo_dataset_def iloc_def)
  obtain s where s: "MemeDataset_getitem ?ds 0 = Inr s"
    by (simp add: demo_eval)
  from label_round_trip [OF s row, of Motivational] s
  show "case MemeDataset_getitem ?ds 0 of
      Inl e \<Rightarrow> False
    | Inr s \<Rightarrow> decode_label Motivational (labels s Motivational) = Inr ''not_motivational''"
    by (simp add: demo_row_def label_maps.simps)
qed

text \<open>
  C2 as stated, for all five tasks, fails at the motivational task: \<^verbatim>\<open>__getitem__\<close>
  returns for the label \<^verbatim>\<open>'maybe'\<close>, and decoding the stored index gives
  \<^verbatim>\<open>'not_motivational'\<close>.
\<close>

theorem label_round_trip_counterexample:
  "iloc (labels_df (demo_dataset [demo_row ''neutral'' ''maybe''])) 0 =
     Inr (demo_row ''neutral'' ''maybe'') \<and>
   (case MemeDataset_getitem (demo_dataset [demo_row ''neutral'' ''maybe'']) 0 of
      Inl e \<Rightarrow> False
    | Inr s \<Rightarrow> decode_label Motivational (labels s Motivational) = Inr ''not_motivational'' \<and>
               decode_label Motivational (labels s Motivational) \<noteq>
                 Inr (label_of (demo_row ''neutral'' ''maybe'') Motivational))"
  by (simp add: demo_eval)

text \<open>
  Claim C10. When \<^verbatim>\<open>__getitem__\<close> returns, each task's class index is below the width
  of that task's head in \<^verbatim>\<open>MultimodalModel.classifier\<close>: at most 4 for sentiment, at
  most 3 for humor, sarcasm and offensive, at most 1 for motivational. So every label of
  a batch collated from returned samples, which is what the training loop passes to the
  loss of that task, is a class index of the head.
\<close>

theorem label_index_in_range:
  "(MemeDataset_getitem ds idx = Inr s \<longrightarrow> labels s t < classifier_out_features t) \<and>
   ((\<forall>x\<in>set ss. \<exists>i. MemeDataset_getitem ds i = Inr x) \<longrightarrow>
      list_all (\<lambda>y. y < classifier_out_features t) (batch_labels (collate ss) t))"
proof -
  have one: "labels x t < classifier_out_features t" if "MemeDataset_getitem ds i = Inr x" for i x
  proof -
    from getitem_Inr_D [OF that] obtain r where enc: "encode_labels r = Inr (labels x)"
      by auto
    show ?thesis
    proof (cases "t = Motivational")
      case True
      with encode_labels_motivational [OF enc] show ?thesis by simp
    next
      case False
      from list_index_nth [OF encode_labels_lookup [OF enc False]]
      have "labels x t < length (label_maps t)" by simp
      then show ?thesis by (cases t) (simp_all add: label_maps.simps)
    qed
  qed
  show ?thesis
    using one by (auto simp: collate_def list_all_iff)
qed

text \<open>
  C10 at a concrete row with the largest index of the sentiment and motivational tasks,
  and for the batch of that one sample.
\<close>

theorem label_index_in_range_witness:
  "(case MemeDataset_getitem (demo_dataset [demo_row ''very_positive'' ''motivational'']) 0 of
      Inl e \<Rightarrow> False
    | Inr s \<Rightarrow> labels s Sentiment = 4 \<and> labels s Sentiment < classifier_out_features Sentiment \<and>
               labels s Motivational = 1 \<and>
               labels s Motivational < classifier_out_features Motivational \<and>
               list_all (\<lambda>y. y < classifier_out_features Sentiment)
                 (batch_labels (collate [s]) Sentiment))"
proof -
  let ?ds = "demo_dataset [demo_row ''very_positive'' ''motivational'']"
  obtain s where s: "MemeDataset_getitem ?ds 0 = Inr s"
    by (simp add: demo_eval)
  have v: "labels s Sentiment = 4 \<and> labels s Motivational = 1"
    using s by (auto simp: demo_eval)
  have all: "\<forall>x\<in>set [s]. \<exists>i. MemeDataset_getitem ?ds i = Inr x"
    using s by auto
  from label_index_in_range [of ?ds 0 s Sentiment "[s]"]
    label_index_in_range [of ?ds 0 s Motivational "[s]"] s v all
  show ?thesis by simp
qed

section \<open>The forward pass: lemmas\<close>

lemma Linear_forward_shape:
  assumes "row_shape N (in_features l) x"
  shows "Linear_forward l x = Inr (map (affine l) x) \<and>
         row_shape N (out_features l) (map (affine l) x)"
  using assms by (simp add: Linear_forward_def affine_def row_shape_def list_all_iff)

lemma relu_shape: "row_shape N k x \<Longrightarrow> row_shape N k (map (map (\<lambda>v. max 0 v)) x)"
  by (simp add: row_shape_def list_all_iff)

lemma dropout_shape: "row_shape N k x \<Longrightarrow> row_shape N k (dropout keep p x)"
  by (auto simp: row_shape_def list_all_iff dropout_def)

lemma first_token_ok:
  assumes "hidden_state_ok N h"
  shows "first_token h = Inr (map (\<lambda>s. s ! 0) h) \<and> row_shape N 768 (map (\<lambda>s. s ! 0) h)"
  using assms by (simp add: hidden_state_ok_def first_token_def row_shape_def list_all_iff)

lemma torch_cat_dim1_ok:
  assumes "row_shape N j a" and "row_shape N k b"
  shows "torch_cat_dim1 a b = Inr (map (\<lambda>(u, v). u @ v) (zip a b)) \<and>
         row_shape N (j + k) (map (\<lambda>(u, v). u @ v) (zip a b))"
proof -
  have "length u + length v = j + k" if "(u, v) \<in> set (zip a b)" for u v
    using assms set_zip_leftD [OF that] set_zip_rightD [OF that]
    by (simp add: row_shape_def list_all_iff)
  with assms show ?thesis
    by (auto simp: torch_cat_dim1_def row_shape_def list_all_iff)
qed

lemma heads_forward_init:
  assumes "row_shape N 512 fused"
  shows "heads_forward (classifier (MultimodalModel_init p)) fused =
           Inr (map (\<lambda>t. (t, head_scores p t fused)) tasks)"
proof -
  have one: "Linear_forward (nn_Linear 512 k w b) fused = Inr (map (affine (nn_Linear 512 k w b)) fused)"
    for k w b
    using Linear_forward_shape [of N "nn_Linear 512 k w b" fused] assms
    by (simp add: nn_Linear_def)
  show ?thesis
    by (simp add: MultimodalModel_init_def one tasks_def head_scores_def)
qed

lemma head_scores_shape:
  assumes "row_shape N 512 fused"
  shows "row_shape N (classifier_out_features t) (head_scores p t fused)"
  using Linear_forward_shape
    [of N "nn_Linear 512 (classifier_out_features t) (head_weight p t) (head_bias p t)" fused] assms
  by (simp add: nn_Linear_def head_scores_def)

lemma fusion_init:
  assumes "row_shape N 1536 cat"
  shows "Sequential_forward tr keep (fusion (MultimodalModel_init p)) cat = Inr (fused_of p tr keep cat) \<and>
         row_shape N 512 (fused_of p tr keep cat)"
proof -
  let ?l = "nn_Linear (768 * 2) 512 (fusion_weight p) (fusion_bias p)"
  have lin: "Linear_forward ?l cat = Inr (map (affine ?l) cat) \<and> row_shape N 512 (map (affine ?l) cat)"
    using Linear_forward_shape [of N ?l cat] assms by (simp add: nn_Linear_def)
  then have act: "row_shape N 512 (map (map (\<lambda>v. max 0 v)) (map (affine ?l) cat))"
    using relu_shape by blast
  show ?thesis
    using lin act dropout_shape [OF act]
    by (simp add: MultimodalModel_init_def fused_of_def Let_def)
qed

lemma forward_init:
  assumes "hidden_state_ok N (text_encoder p tr ids att)"
      and "hidden_state_ok N (image_encoder p tr pixels)"
  defines "cat \<equiv> map (\<lambda>(u, v). u @ v)
             (zip (map (\<lambda>s. s ! 0) (text_encoder p tr ids att))
                  (map (\<lambda>s. s ! 0) (image_encoder p tr pixels)))"
  shows "MultimodalModel_forward ((MultimodalModel_init p)\<lparr>training := tr\<rparr>) keep ids att pixels =
           Inr (map (\<lambda>t. (t, head_scores p t (fused_of p tr keep cat))) tasks)"
    and "row_shape N 1536 cat"
    and "row_shape N 512 (fused_of p tr keep cat)"
proof -
  note t = first_token_ok [OF assms(1)]
  note i = first_token_ok [OF assms(2)]
  from torch_cat_dim1_ok [OF conjunct2 [OF t] conjunct2 [OF i]]
  have c: "torch_cat_dim1 (map (\<lambda>s. s ! 0) (text_encoder p tr ids att))
             (map (\<lambda>s. s ! 0) (image_encoder p tr pixels)) = Inr cat"
    and cs: "row_shape N 1536 cat"
    by (simp_all add: cat_def)
  note f = fusion_init [OF cs, of tr keep p]
  note h = heads_forward_init [OF conjunct2 [OF f], of p]
  show "row_shape N 1536 cat" by (rule cs)
  show "row_shape N 512 (fused_of p tr keep cat)" using f by simp
  have sel: "text_model ((MultimodalModel_init p)\<lparr>training := tr\<rparr>) = text_encoder p"
    "image_model ((MultimodalModel_init p)\<lparr>training := tr\<rparr>) = image_encoder p"
    "fusion ((MultimodalModel_init p)\<lparr>training := tr\<rparr>) = fusion (MultimodalModel_init p)"
    "classifier ((MultimodalModel_init p)\<lparr>training := tr\<rparr>) = classifier (MultimodalModel_init p)"
    by (simp_all add: MultimodalModel_init_def)
  show "MultimodalModel_forward ((MultimodalModel_init p)\<lparr>training := tr\<rparr>) keep ids att pixels =
           Inr (map (\<lambda>t. (t, head_scores p t (fused_of p tr keep cat))) tasks)"
    using t i c f h by (simp add: MultimodalModel_forward_def sel)
qed

lemma encoders_ok_text:
  "encoders_ok p \<Longrightarrow> length ids = N \<Longrightarrow> hidden_state_ok N (text_encoder p tr ids att)"
  unfolding encoders_ok_def by blast

lemma encoders_ok_image:
  "encoders_ok p \<Longrightarrow> length pixels = N \<Longrightarrow> hidden_state_ok N (image_encoder p tr pixels)"
  unfolding encoders_ok_def by blast

lemma affine_spec_linear:
  "affine (nn_Linear n k W b) v = spec_linear n k W b v"
  by (simp add: affine_def spec_linear_def nn_Linear_def interv_sum_list_conv_sum_set_nat
      atLeast0LessThan)

lemma relu_spec: "max 0 v = spec_activation v"
  by (simp add: spec_activation_def max_def)

lemma fused_of_nth:
  assumes "i < length cat"
  shows "fused_of p tr keep cat ! i =
           spec_dropout tr (keep i) (2 / 10)
             (map spec_activation (spec_linear 1536 512 (fusion_weight p) (fusion_bias p) (cat ! i)))"
  using assms
  by (simp add: fused_of_def Let_def dropout_def spec_dropout_def affine_spec_linear relu_spec)

lemma length_fused_of: "length (fused_of p tr keep cat) = length cat"
  by (simp add: fused_of_def Let_def dropout_def)

section \<open>Claims about the model\<close>

text \<open>
  Claim C8. For a model built by \<^verbatim>\<open>__init__\<close>, in either mode, and a batch of \<open>N\<close>
  samples on which the encoders keep their contract, \<^verbatim>\<open>forward\<close> returns what the
  specification describes: each encoder's output reduced to its first token's hidden
  state, the two vectors concatenated (width 1536), one shared linear layer with
  activation and dropout down to width 512, and five linear heads on that one fused
  vector, whose outputs are returned as they are.
\<close>

theorem forward_is_fusion_pipeline:
  assumes "encoders_ok p" and "length ids = N" and "length pixels = N"
  shows "MultimodalModel_forward ((MultimodalModel_init p)\<lparr>training := tr\<rparr>) keep ids att pixels =
           Inr (spec_forward p tr keep (text_encoder p tr ids att) (image_encoder p tr pixels)) \<and>
         (\<forall>i<N. length (spec_pooled (text_encoder p tr ids att ! i) @
                         spec_pooled (image_encoder p tr pixels ! i)) = 1536 \<and>
                length (spec_fused p tr (keep i) (text_encoder p tr ids att ! i)
                          (image_encoder p tr pixels ! i)) = 512)"
proof -
  let ?th = "text_encoder p tr ids att" and ?ih = "image_encoder p tr pixels"
  define cat where "cat = map (\<lambda>(u, v). u @ v) (zip (map (\<lambda>s. s ! 0) ?th) (map (\<lambda>s. s ! 0) ?ih))"
  have th: "hidden_state_ok N ?th" and ih: "hidden_state_ok N ?ih"
    using assms by (simp_all add: encoders_ok_text encoders_ok_image)
  have fwd: "MultimodalModel_forward ((MultimodalModel_init p)\<lparr>training := tr\<rparr>) keep ids att pixels =
           Inr (map (\<lambda>t. (t, head_scores p t (fused_of p tr keep cat))) tasks)"
    and cs: "row_shape N 1536 cat" and fs: "row_shape N 512 (fused_of p tr keep cat)"
    using forward_init [OF th ih] by (simp_all add: cat_def)
  have len: "length ?th = N" "length ?ih = N" "length cat = N"
    using th ih cs by (simp_all add: hidden_state_ok_def row_shape_def)
  have pooled: "cat ! i = spec_pooled (?th ! i) @ spec_pooled (?ih ! i)" if "i < N" for i
  proof -
    have "?th ! i \<noteq> []" "?ih ! i \<noteq> []"
      using th ih that by (simp_all add: hidden_state_ok_def list_all_length)
    then show ?thesis
      using that len by (simp add: cat_def spec_pooled_def hd_conv_nth)
  qed
  have fused: "fused_of p tr keep cat ! i = spec_fused p tr (keep i) (?th ! i) (?ih ! i)" if "i < N" for i
    using that len by (simp add: fused_of_nth pooled spec_fused_def)
  have scores: "head_scores p t (fused_of p tr keep cat) =
      map (\<lambda>i. spec_linear 512 (classifier_out_features t) (head_weight p t) (head_bias p t)
                 (spec_fused p tr (keep i) (?th ! i) (?ih ! i))) [0..<length ?th]" for t
    by (rule nth_equalityI)
      (simp_all add: head_scores_def length_fused_of len affine_spec_linear fused)
  have widths: "length (spec_pooled (?th ! i) @ spec_pooled (?ih ! i)) = 1536 \<and>
      length (spec_fused p tr (keep i) (?th ! i) (?ih ! i)) = 512" if "i < N" for i
  proof -
    have "length (cat ! i) = 1536" "length (fused_of p tr keep cat ! i) = 512"
      using cs fs that by (simp_all add: row_shape_def list_all_length)
    then show ?thesis using that by (simp add: pooled fused del: length_append)
  qed
  show ?thesis
    using fwd widths by (simp add: spec_forward_def scores tasks_def)
qed

text \<open>
  Claim C3. For a batch of \<open>N\<close> samples on which the encoders keep their contract,
  \<^verbatim>\<open>forward\<close> returns a dictionary with exactly the keys sentiment, humor, sarcasm,
  offensive and motivational, whose values have the shapes \<open>N \<times> 5\<close>, \<open>N \<times> 4\<close>,
  \<open>N \<times> 4\<close>, \<open>N \<times> 4\<close> and \<open>N \<times> 2\<close>.
\<close>

theorem forward_output_contract:
  assumes "encoders_ok p" and "length ids = N" and "length pixels = N"
  shows "\<exists>s h c f m.
           MultimodalModel_forward ((MultimodalModel_init p)\<lparr>training := tr\<rparr>) keep ids att pixels =
             Inr [(Sentiment, s), (Humor, h), (Sarcasm, c), (Offensive, f), (Motivational, m)] \<and>
           row_shape N 5 s \<and> row_shape N 4 h \<and> row_shape N 4 c \<and> row_shape N 4 f \<and>
           row_shape N 2 m"
proof -
  let ?th = "text_encoder p tr ids att" and ?ih = "image_encoder p tr pixels"
  define cat where "cat = map (\<lambda>(u, v). u @ v) (zip (map (\<lambda>s. s ! 0) ?th) (map (\<lambda>s. s ! 0) ?ih))"
  have th: "hidden_state_ok N ?th" and ih: "hidden_state_ok N ?ih"
    using assms by (simp_all add: encoders_ok_text encoders_ok_image)
  have fwd: "MultimodalModel_forward ((MultimodalModel_init p)\<lparr>training := tr\<rparr>) keep ids att pixels =
           Inr (map (\<lambda>t. (t, head_scores p t (fused_of p tr keep cat))) tasks)"
    and fs: "row_shape N 512 (fused_of p tr keep cat)"
    using forward_init [OF th ih] by (simp_all add: cat_def)
  from head_scores_shape [OF fs, of Sentiment p] head_scores_shape [OF fs, of Humor p]
    head_scores_shape [OF fs, of Sarcasm p] head_scores_shape [OF fs, of Offensive p]
    head_scores_shape [OF fs, of Motivational p]
  show ?thesis
    by (simp add: fwd tasks_def)
qed

lemma encoders_ok_zero: "encoders_ok zero_parameters"
  by (simp add: encoders_ok_def zero_parameters_def hidden_state_ok_def list_all_iff)

text \<open>C3 for a batch of two samples and the parameters that are all 0.\<close>

theorem forward_output_contract_witness:
  "\<exists>s h c f m.
     MultimodalModel_forward ((MultimodalModel_init zero_parameters)\<lparr>training := True\<rparr>)
         (\<lambda>i j. True) [[101, 2298, 102], [101, 2190, 102]] [[1, 1, 1], [1, 1, 1]] [(), ()] =
       Inr [(Sentiment, s), (Humor, h), (Sarcasm, c), (Offensive, f), (Motivational, m)] \<and>
     row_shape 2 5 s \<and> row_shape 2 4 h \<and> row_shape 2 4 c \<and> row_shape 2 4 f \<and> row_shape 2 2 m"
  using forward_output_contract [OF encoders_ok_zero, of "[[101, 2298, 102], [101, 2190, 102]]" 2
      "[(), ()]" True "\<lambda>i j. True" "[[1, 1, 1], [1, 1, 1]]"]
  by simp

lemma zero_scores':
  "spec_forward zero_parameters tr keep
      (text_encoder zero_parameters tr [[101, 2298, 102], [101, 2190, 102]] [[1, 1, 1], [1, 1, 1]])
      (image_encoder zero_parameters tr [(), ()]) = zero_outputs"
  by (simp add: spec_forward_def spec_linear_def zero_parameters_def zero_outputs_def
      upt_rec [of _ "numeral n" for n] upt_rec [of _ "Suc n" for n])

text \<open>
  C8 for a batch of two samples and the all-zero parameters, in evaluation mode: the
  scores returned are the heads' outputs, all 0 (a softmax would return positive scores
  that sum to 1).
\<close>

theorem forward_is_fusion_pipeline_witness:
  "MultimodalModel_forward ((MultimodalModel_init zero_parameters)\<lparr>training := False\<rparr>)
       (\<lambda>i j. True) [[101, 2298, 102], [101, 2190, 102]] [[1, 1, 1], [1, 1, 1]] [(), ()] =
     Inr [(Sentiment, [[0, 0, 0, 0, 0], [0, 0, 0, 0, 0]]),
          (Humor, [[0, 0, 0, 0], [0, 0, 0, 0]]),
          (Sarcasm, [[0, 0, 0, 0], [0, 0, 0, 0]]),
          (Offensive, [[0, 0, 0, 0], [0, 0, 0, 0]]),
          (Motivational, [[0, 0], [0, 0]])]"
  using forward_is_fusion_pipeline [OF encoders_ok_zero, of "[[101, 2298, 102], [101, 2190, 102]]" 2
      "[(), ()]" False "\<lambda>i j. True" "[[1, 1, 1], [1, 1, 1]]"]
  by (simp add: zero_scores' zero_outputs_def)

section \<open>The training loop: lemmas\<close>

lemma heads_forward_keys: "heads_forward hs x = Inr ys \<Longrightarrow> map fst ys = map fst hs"
proof (induction hs arbitrary: ys)
  case Nil
  then show ?case by simp
next
  case (Cons h hs)
  obtain t l where h: "h = (t, l)" by (cases h)
  from Cons.prems h obtain y rest where
    "heads_forward hs x = Inr rest" "ys = (t, y) # rest"
    by (auto split: sum.splits)
  with Cons.IH h show ?case by simp
qed

lemma forward_keys:
  assumes "MultimodalModel_forward m keep ids att pixels = Inr outputs"
  shows "map fst outputs = map fst (classifier m)"
  using assms
  by (auto simp: MultimodalModel_forward_def split: sum.splits dest: heads_forward_keys)

lemma init_keys:
  "map fst (classifier ((MultimodalModel_init p)\<lparr>training := tr\<rparr>)) =
     [Sentiment, Humor, Sarcasm, Offensive, Motivational]"
  by (simp add: MultimodalModel_init_def)

lemma criterion_Some: "criterion ce t = Some ce"
  by (cases t) (simp_all add: criterion_def)

lemma sum_losses_five:
  assumes "sum_losses a (criterion ce) [(Sentiment, y1), (Humor, y2), (Sarcasm, y3), (Offensive, y4), (Motivational, y5)] labs = Inr loss"
  shows "\<exists>l1 l2 l3 l4 l5.
           ce y1 (labs Sentiment) = Inr l1 \<and> ce y2 (labs Humor) = Inr l2 \<and>
           ce y3 (labs Sarcasm) = Inr l3 \<and> ce y4 (labs Offensive) = Inr l4 \<and>
           ce y5 (labs Motivational) = Inr l5 \<and> loss = a + l1 + l2 + l3 + l4 + l5"
  using assms by (auto simp: criterion_Some split: sum.splits)

lemma list5:
  assumes "map fst xs = [a, b, c, d, e]"
  shows "\<exists>x1 x2 x3 x4 x5. xs = [(a, x1), (b, x2), (c, x3), (d, x4), (e, x5)]"
  using assms by (auto simp: map_eq_Cons_conv)

lemma training_step_count:
  assumes "training_step (counting opt) crit (p, (s, n)) x = Inr ((p', (s', n')), loss)"
  shows "n' = Suc n"
  using assms by (auto simp: training_step_def counting_def split: sum.splits prod.splits)

lemma train_epoch_count:
  "train_epoch (counting opt) crit (p, (s, n)) xs = Inr ((p', (s', n')), losses) \<Longrightarrow>
     n' = n + length xs"
proof (induction xs arbitrary: p s n losses)
  case Nil
  then show ?case by simp
next
  case (Cons x xs)
  from Cons.prems obtain p1 s1 n1 loss rest where
    step: "training_step (counting opt) crit (p, (s, n)) x = Inr ((p1, (s1, n1)), loss)"
    and tl: "train_epoch (counting opt) crit (p1, (s1, n1)) xs = Inr ((p', (s', n')), rest)"
    by (auto split: sum.splits prod.splits)
  from Cons.IH [OF tl] training_step_count [OF step] show ?case by simp
qed

lemma train_epochs_count:
  "train_epochs (counting opt) crit (p, (s, n)) dataloader es = Inr ((p', (s', n')), history) \<Longrightarrow>
     n' = n + (\<Sum>e\<leftarrow>es. length (dataloader e))"
proof (induction es arbitrary: p s n history)
  case Nil
  then show ?case by simp
next
  case (Cons e es)
  from Cons.prems obtain p1 s1 n1 losses rest where
    ep: "train_epoch (counting opt) crit (p, (s, n)) (dataloader e) = Inr ((p1, (s1, n1)), losses)"
    and tl: "train_epochs (counting opt) crit (p1, (s1, n1)) dataloader es = Inr ((p', (s', n')), rest)"
    by (auto split: sum.splits prod.splits if_splits)
  from Cons.IH [OF tl] train_epoch_count [OF ep] show ?case by simp
qed

lemma train_model_count:
  assumes "train_model p dataloader (counting opt) (s, 0) crit epochs = Inr ((p', (s', n)), history)"
  shows "n = (\<Sum>e<epochs. length (dataloader e))"
  using train_epochs_count [OF assms [unfolded train_model_def]]
  by (simp add: interv_sum_list_conv_sum_set_nat atLeast0LessThan)

lemma train_epoch_losses:
  "train_epoch opt crit st xs = Inr (st', losses) \<Longrightarrow>
     \<forall>k<length xs. \<exists>q. batch_loss crit (fst (xs ! k)) (snd (xs ! k)) q = Inr (losses ! k)"
proof (induction xs arbitrary: st losses)
  case Nil
  then show ?case by simp
next
  case (Cons x xs)
  from Cons.prems obtain st1 loss rest where
    step: "training_step opt crit st x = Inr (st1, loss)"
    and tl: "train_epoch opt crit st1 xs = Inr (st', rest)"
    and l: "losses = loss # rest"
    by (auto split: sum.splits prod.splits)
  from step have hd: "batch_loss crit (fst x) (snd x) (fst st) = Inr loss"
    by (auto simp: training_step_def split: sum.splits)
  show ?case
  proof (intro allI impI)
    fix k assume "k < length (x # xs)"
    then show "\<exists>q. batch_loss crit (fst ((x # xs) ! k)) (snd ((x # xs) ! k)) q = Inr (losses ! k)"
      using hd Cons.IH [OF tl] l by (cases k) auto
  qed
qed

lemma train_epochs_losses:
  "train_epochs opt crit st dataloader es = Inr (st', history) \<Longrightarrow>
     \<forall>j<length es. \<forall>k<length (dataloader (es ! j)).
       \<exists>q. batch_loss crit (fst (dataloader (es ! j) ! k)) (snd (dataloader (es ! j) ! k)) q =
             Inr (fst (history ! j) ! k)"
proof (induction es arbitrary: st history)
  case Nil
  then show ?case by simp
next
  case (Cons e es)
  from Cons.prems obtain st1 losses rest where
    ep: "train_epoch opt crit st (dataloader e) = Inr (st1, losses)"
    and tl: "train_epochs opt crit st1 dataloader es = Inr (st', rest)"
    and h: "history = (losses, foldl (+) 0 losses / real (length (dataloader e))) # rest"
    by (auto split: sum.splits prod.splits if_splits)
  show ?case
  proof (intro allI impI)
    fix j k assume j: "j < length (e # es)" and k: "k < length (dataloader ((e # es) ! j))"
    show "\<exists>q. batch_loss crit (fst (dataloader ((e # es) ! j) ! k))
              (snd (dataloader ((e # es) ! j) ! k)) q = Inr (fst (history ! j) ! k)"
    proof (cases j)
      case 0
      with train_epoch_losses [OF ep] k h show ?thesis by simp
    next
      case (Suc i)
      with Cons.IH [OF tl] j k h show ?thesis by simp
    qed
  qed
qed

lemma train_model_losses:
  assumes "train_model p dataloader opt s crit epochs = Inr (st, history)"
  shows "\<forall>e<epochs. \<forall>k<length (dataloader e).
       \<exists>q. batch_loss crit (fst (dataloader e ! k)) (snd (dataloader e ! k)) q =
             Inr (fst (history ! e) ! k)"
  using train_epochs_losses [OF assms [unfolded train_model_def]] by simp

lemma head_scores_zero:
  "head_scores zero_parameters t fused = map (\<lambda>v. replicate (classifier_out_features t) 0) fused"
proof -
  have "affine (nn_Linear 512 k (\<lambda>r c. 0) (\<lambda>r. 0)) = (\<lambda>v. replicate k 0)" for k
    by (rule ext) (simp add: affine_def nn_Linear_def map_replicate_const sum_list_replicate)
  then show ?thesis
    by (simp add: head_scores_def zero_parameters_def)
qed

lemma zero_model_call:
  "model_call ((MultimodalModel_init zero_parameters)\<lparr>training := tr\<rparr>) keep demo_batch =
     Inr zero_outputs"
proof -
  let ?ids = "[[101, 2298, 102], [101, 2190, 102]] :: int list list"
  let ?att = "[[1, 1, 1], [1, 1, 1]] :: int list list"
  have th: "hidden_state_ok 2 (text_encoder zero_parameters tr ?ids ?att)"
    using encoders_ok_text [OF encoders_ok_zero, of ?ids 2] by simp
  have ih: "hidden_state_ok 2 (image_encoder zero_parameters tr [(), ()])"
    using encoders_ok_image [OF encoders_ok_zero, of "[(), ()]" 2] by simp
  note f = forward_init [OF th ih]
  from f(3) [of keep] obtain u v where fused: "fused_of zero_parameters tr keep
      (map (\<lambda>(u, v). u @ v)
        (zip (map (\<lambda>s. s ! 0) (text_encoder zero_parameters tr ?ids ?att))
             (map (\<lambda>s. s ! 0) (image_encoder zero_parameters tr [(), ()])))) = [u, v]"
    by (auto simp: row_shape_def length_Suc_conv eval_nat_numeral)
  show ?thesis
    using f(1) [of keep]
    by (simp add: model_call_def demo_batch_def fused head_scores_zero tasks_def zero_outputs_def
        eval_nat_numeral)
qed

lemma cross_entropy_zero5:
  "cross_entropy [[0, 0, 0, 0, 0], [0, 0, 0, 0, 0]] (batch_labels demo_batch t) = Inr (ln 5)"
  by (simp add: cross_entropy_def demo_batch_def)

lemma cross_entropy_zero4:
  "cross_entropy [[0, 0, 0, 0], [0, 0, 0, 0]] (batch_labels demo_batch t) = Inr (ln 4)"
  by (simp add: cross_entropy_def demo_batch_def)

lemma cross_entropy_zero2:
  "cross_entropy [[0, 0], [0, 0]] (batch_labels demo_batch t) = Inr (ln 2)"
  by (simp add: cross_entropy_def demo_batch_def)

lemma zero_batch_loss:
  "batch_loss (criterion cross_entropy) keep demo_batch zero_parameters =
     Inr (ln 5 + ln 4 + ln 4 + ln 4 + ln 2)"
  by (simp add: batch_loss_def zero_model_call zero_outputs_def criterion_Some
      cross_entropy_zero5 cross_entropy_zero4 cross_entropy_zero2)

lemma sum_losses_spec:
  "sum_losses a (criterion ce)
     [(Sentiment, y1), (Humor, y2), (Sarcasm, y3), (Offensive, y4), (Motivational, y5)] labs =
   (case sum_results
      (map (\<lambda>t. ce (scores_of
          [(Sentiment, y1), (Humor, y2), (Sarcasm, y3), (Offensive, y4), (Motivational, y5)] t) (labs t))
        [Sentiment, Humor, Sarcasm, Offensive, Motivational]) of
      Inl e \<Rightarrow> Inl e | Inr rest \<Rightarrow> Inr (a + rest))"
  by (simp add: criterion_Some scores_of_def split: sum.splits)

lemma batch_loss_spec: "batch_loss (criterion ce) keep b = spec_summed_loss ce keep b"
proof (rule ext)
  fix q
  show "batch_loss (criterion ce) keep b q = spec_summed_loss ce keep b q"
  proof (cases "model_call ((MultimodalModel_init q)\<lparr>training := True\<rparr>) keep b")
    case (Inl e)
    then show ?thesis by (simp add: batch_loss_def spec_summed_loss_def)
  next
    case (Inr outputs)
    then have "map fst outputs = [Sentiment, Humor, Sarcasm, Offensive, Motivational]"
      unfolding model_call_def using forward_keys init_keys by metis
    from list5 [OF this] obtain y1 y2 y3 y4 y5 where
      outs: "outputs = [(Sentiment, y1), (Humor, y2), (Sarcasm, y3), (Offensive, y4), (Motivational, y5)]"
      by blast
    show ?thesis
      unfolding batch_loss_def spec_summed_loss_def Inr outs sum.case sum_losses_spec
      by (simp split: sum.splits)
  qed
qed

lemma training_step_spec:
  "training_step opt (criterion ce) st x =
     (case spec_summed_loss ce (fst x) (snd x) (fst st) of
        Inl e \<Rightarrow> Inl e
      | Inr loss \<Rightarrow> Inr (spec_step opt ce st x, loss))"
  by (simp add: training_step_def batch_loss_spec spec_step_def split: sum.splits)

lemma train_epoch_spec:
  "train_epoch opt (criterion ce) st xs = Inr (st', losses) \<Longrightarrow>
     st' = foldl (spec_step opt ce) st xs \<and> length losses = length xs \<and>
     (\<forall>i<length xs.
        spec_summed_loss ce (fst (xs ! i)) (snd (xs ! i))
          (fst (foldl (spec_step opt ce) st (take i xs))) = Inr (losses ! i))"
proof (induction xs arbitrary: st losses)
  case Nil
  then show ?case by simp
next
  case (Cons x xs)
  from Cons.prems obtain loss rest where
    step: "spec_summed_loss ce (fst x) (snd x) (fst st) = Inr loss"
    and tl: "train_epoch opt (criterion ce) (spec_step opt ce st x) xs = Inr (st', rest)"
    and l: "losses = loss # rest"
    by (auto simp: training_step_spec split: sum.splits prod.splits)
  note ih = Cons.IH [OF tl]
  show ?case
  proof (intro conjI allI impI)
    show "st' = foldl (spec_step opt ce) st (x # xs)" using ih by simp
    show "length losses = length (x # xs)" using ih l by simp
    fix i assume "i < length (x # xs)"
    then show "spec_summed_loss ce (fst ((x # xs) ! i)) (snd ((x # xs) ! i))
          (fst (foldl (spec_step opt ce) st (take i (x # xs)))) = Inr (losses ! i)"
      using step ih l by (cases i) auto
  qed
qed

lemma train_epoch_total:
  "(\<forall>i<length xs. \<exists>l.
        spec_summed_loss ce (fst (xs ! i)) (snd (xs ! i))
          (fst (foldl (spec_step opt ce) st (take i xs))) = Inr l) \<Longrightarrow>
   \<exists>losses. train_epoch opt (criterion ce) st xs = Inr (foldl (spec_step opt ce) st xs, losses)"
proof (induction xs arbitrary: st)
  case Nil
  then show ?case by simp
next
  case (Cons x xs)
  from Cons.prems [rule_format, of 0] obtain loss where
    step: "spec_summed_loss ce (fst x) (snd x) (fst st) = Inr loss"
    by auto
  have "\<forall>i<length xs. \<exists>l.
        spec_summed_loss ce (fst (xs ! i)) (snd (xs ! i))
          (fst (foldl (spec_step opt ce) (spec_step opt ce st x) (take i xs))) = Inr l"
  proof (intro allI impI)
    fix i assume "i < length xs"
    with Cons.prems [rule_format, of "Suc i"]
    show "\<exists>l. spec_summed_loss ce (fst (xs ! i)) (snd (xs ! i))
          (fst (foldl (spec_step opt ce) (spec_step opt ce st x) (take i xs))) = Inr l"
      by simp
  qed
  from Cons.IH [OF this] step show ?case
    by (auto simp: training_step_spec)
qed

lemma train_epochs_spec:
  "train_epochs opt (criterion ce) st dataloader es = Inr (st', history) \<Longrightarrow>
     st' = foldl (spec_step opt ce) st (concat (map dataloader es)) \<and>
     length history = length es \<and>
     (\<forall>j<length es.
        dataloader (es ! j) \<noteq> [] \<and>
        length (fst (history ! j)) = length (dataloader (es ! j)) \<and>
        snd (history ! j) = foldl (+) 0 (fst (history ! j)) / real (length (dataloader (es ! j)))) \<and>
     (\<forall>i<length (concat (map dataloader es)).
        spec_summed_loss ce (fst (concat (map dataloader es) ! i)) (snd (concat (map dataloader es) ! i))
          (fst (foldl (spec_step opt ce) st (take i (concat (map dataloader es))))) =
        Inr (concat (map fst history) ! i))"
proof (induction es arbitrary: st history)
  case Nil
  then show ?case by simp
next
  case (Cons e es)
  let ?step = "spec_step opt ce"
  let ?A = "dataloader e" and ?B = "concat (map dataloader es)"
  from Cons.prems obtain st1 losses rest where
    ep: "train_epoch opt (criterion ce) st ?A = Inr (st1, losses)"
    and ne: "?A \<noteq> []"
    and tl: "train_epochs opt (criterion ce) st1 dataloader es = Inr (st', rest)"
    and h: "history = (losses, foldl (+) 0 losses / real (length ?A)) # rest"
    by (auto split: sum.splits prod.splits if_splits)
  note a = train_epoch_spec [OF ep]
  note b = Cons.IH [OF tl]
  have st1: "st1 = foldl ?step st ?A" and len: "length losses = length ?A"
    using a by simp_all
  show ?case
  proof (intro conjI allI impI)
    show "st' = foldl ?step st (concat (map dataloader (e # es)))"
      using b st1 by simp
    show "length history = length (e # es)"
      using b h by simp
  next
    fix j assume "j < length (e # es)"
    then show "dataloader ((e # es) ! j) \<noteq> []"
      "length (fst (history ! j)) = length (dataloader ((e # es) ! j))"
      "snd (history ! j) = foldl (+) 0 (fst (history ! j)) / real (length (dataloader ((e # es) ! j)))"
      using b h ne len by (cases j; simp)+
  next
    fix i assume i: "i < length (concat (map dataloader (e # es)))"
    show "spec_summed_loss ce (fst (concat (map dataloader (e # es)) ! i))
          (snd (concat (map dataloader (e # es)) ! i))
          (fst (foldl ?step st (take i (concat (map dataloader (e # es)))))) =
        Inr (concat (map fst history) ! i)"
    proof (cases "i < length ?A")
      case True
      with a len h show ?thesis by (simp add: nth_append)
    next
      case False
      then have "i - length ?A < length ?B" using i by simp
      with b have "spec_summed_loss ce (fst (?B ! (i - length ?A))) (snd (?B ! (i - length ?A)))
          (fst (foldl ?step st1 (take (i - length ?A) ?B))) =
        Inr (concat (map fst rest) ! (i - length ?A))"
        by simp
      with False len h st1 show ?thesis by (simp add: nth_append)
    qed
  qed
qed

lemma train_epochs_total:
  "(\<forall>e\<in>set es. dataloader e \<noteq> []) \<Longrightarrow>
   (\<forall>i<length (concat (map dataloader es)). \<exists>l.
        spec_summed_loss ce (fst (concat (map dataloader es) ! i)) (snd (concat (map dataloader es) ! i))
          (fst (foldl (spec_step opt ce) st (take i (concat (map dataloader es))))) = Inr l) \<Longrightarrow>
   \<exists>history. train_epochs opt (criterion ce) st dataloader es =
      Inr (foldl (spec_step opt ce) st (concat (map dataloader es)), history)"
proof (induction es arbitrary: st)
  case Nil
  then show ?case by simp
next
  case (Cons e es)
  let ?step = "spec_step opt ce"
  let ?A = "dataloader e" and ?B = "concat (map dataloader es)"
  have A: "\<forall>i<length ?A. \<exists>l.
        spec_summed_loss ce (fst (?A ! i)) (snd (?A ! i)) (fst (foldl ?step st (take i ?A))) = Inr l"
  proof (intro allI impI)
    fix i assume "i < length ?A"
    with Cons.prems(2) [rule_format, of i]
    show "\<exists>l. spec_summed_loss ce (fst (?A ! i)) (snd (?A ! i)) (fst (foldl ?step st (take i ?A))) = Inr l"
      by (simp add: nth_append)
  qed
  from train_epoch_total [OF A] obtain losses where
    ep: "train_epoch opt (criterion ce) st ?A = Inr (foldl ?step st ?A, losses)"
    by blast
  have B: "\<forall>i<length ?B. \<exists>l.
        spec_summed_loss ce (fst (?B ! i)) (snd (?B ! i))
          (fst (foldl ?step (foldl ?step st ?A) (take i ?B))) = Inr l"
  proof (intro allI impI)
    fix i assume "i < length ?B"
    with Cons.prems(2) [rule_format, of "length ?A + i"]
    show "\<exists>l. spec_summed_loss ce (fst (?B ! i)) (snd (?B ! i))
          (fst (foldl ?step (foldl ?step st ?A) (take i ?B))) = Inr l"
      by (simp add: nth_append)
  qed
  from Cons.prems(1) have "\<forall>e\<in>set es. dataloader e \<noteq> []" and ne: "?A \<noteq> []"
    by simp_all
  from Cons.IH [OF this(1) B] obtain rest where
    "train_epochs opt (criterion ce) (foldl ?step st ?A) dataloader es =
       Inr (foldl ?step (foldl ?step st ?A) ?B, rest)"
    by blast
  with ep ne show ?case by simp
qed

lemma counting_identity_foldl:
  "foldl (spec_step (counting (\<lambda>L q u. (q, u))) ce) (q0, ((), n)) xs = (q0, ((), n + length xs))"
  by (induction xs arbitrary: n) (simp_all add: spec_step_def counting_def)

lemma zero_spec_loss:
  "spec_summed_loss cross_entropy keep demo_batch zero_parameters =
     Inr (ln 5 + ln 4 + ln 4 + ln 4 + ln 2)"
  using zero_batch_loss [of keep] by (simp add: batch_loss_spec)

section \<open>The evaluation loop: lemmas\<close>

lemma argmax_dim1_ok:
  "list_all (\<lambda>row. row \<noteq> []) y \<Longrightarrow> argmax_dim1 y = Inr (map first_max y)"
  by (induction y) (auto simp: argmax_row_def first_max_def split: list.splits)

lemma batch_preds_map:
  "(\<And>t. t \<in> set ts \<Longrightarrow> list_all (\<lambda>row. row \<noteq> []) (f t)) \<Longrightarrow>
     batch_preds (map (\<lambda>t. (t, f t)) ts) = Inr (map (\<lambda>t. (t, map first_max (f t))) ts)"
  by (induction ts) (simp_all add: argmax_dim1_ok)

lemma extend_all_tasks:
  "extend_all (map (\<lambda>t. (t, g t)) tasks) labs acc =
     (\<lambda>t. fst acc t @ g t, \<lambda>t. snd acc t @ labs t)"
proof -
  have "fst (extend_all (map (\<lambda>t. (t, g t)) tasks) labs acc) t = fst acc t @ g t"
    "snd (extend_all (map (\<lambda>t. (t, g t)) tasks) labs acc) t = snd acc t @ labs t" for t
    by (cases t; simp add: tasks_def)+
  then show ?thesis
    by (intro prod_eqI ext) simp_all
qed

lemma eval_batch:
  assumes "encoders_ok p" and "batch_ok b"
  shows "model_call ((MultimodalModel_init p)\<lparr>training := False\<rparr>) (\<lambda>i j. True) b =
           Inr (map (\<lambda>t. (t, head_scores p t
                  (fused_of p False (\<lambda>i j. True)
             (map (\<lambda>(u, v). u @ v)
                (zip (map (\<lambda>s. s ! 0) (text_encoder p False (batch_input_ids b) (batch_attention_mask b)))
                     (map (\<lambda>s. s ! 0) (image_encoder p False (batch_pixel_values b)))))))) tasks)"
    and "length (eval_preds p b t) = length (batch_input_ids b)"
    and "batch_preds (map (\<lambda>t. (t, head_scores p t
                  (fused_of p False (\<lambda>i j. True)
             (map (\<lambda>(u, v). u @ v)
                (zip (map (\<lambda>s. s ! 0) (text_encoder p False (batch_input_ids b) (batch_attention_mask b)))
                     (map (\<lambda>s. s ! 0) (image_encoder p False (batch_pixel_values b)))))))) tasks) =
         Inr (map (\<lambda>t. (t, eval_preds p b t)) tasks)"
proof -
  let ?N = "length (batch_input_ids b)"
  let ?cat = "map (\<lambda>(u, v). u @ v)
                (zip (map (\<lambda>s. s ! 0) (text_encoder p False (batch_input_ids b) (batch_attention_mask b)))
                     (map (\<lambda>s. s ! 0) (image_encoder p False (batch_pixel_values b))))"
  have th: "hidden_state_ok ?N (text_encoder p False (batch_input_ids b) (batch_attention_mask b))"
    using assms(1) by (simp add: encoders_ok_text)
  have ih: "hidden_state_ok ?N (image_encoder p False (batch_pixel_values b))"
    using assms by (simp add: encoders_ok_image batch_ok_def)
  note f = forward_init [OF th ih]
  show "model_call ((MultimodalModel_init p)\<lparr>training := False\<rparr>) (\<lambda>i j. True) b =
           Inr (map (\<lambda>t. (t, head_scores p t (fused_of p False (\<lambda>i j. True) ?cat))) tasks)"
    using f(1) by (simp add: model_call_def)
  have shape: "row_shape ?N (classifier_out_features t) (head_scores p t (fused_of p False (\<lambda>i j. True) ?cat))"
    for t
    using head_scores_shape [OF f(3)] .
  show "length (eval_preds p b t) = ?N"
    using shape [of t] by (simp add: eval_preds_def row_shape_def)
  have "list_all (\<lambda>row. row \<noteq> []) (head_scores p t (fused_of p False (\<lambda>i j. True) ?cat))" for t
    using shape [of t] by (cases t) (auto simp: row_shape_def list_all_iff)
  then show "batch_preds (map (\<lambda>t. (t, head_scores p t (fused_of p False (\<lambda>i j. True) ?cat))) tasks) =
         Inr (map (\<lambda>t. (t, eval_preds p b t)) tasks)"
    by (simp add: batch_preds_map eval_preds_def)
qed

lemma evaluate_batches_ok:
  assumes "encoders_ok p" and "list_all batch_ok bs"
  shows "evaluate_batches ((MultimodalModel_init p)\<lparr>training := False\<rparr>) acc bs =
           ((MultimodalModel_init p)\<lparr>training := False\<rparr>,
            Inr (\<lambda>t. fst acc t @ concat (map (\<lambda>b. eval_preds p b t) bs),
                 \<lambda>t. snd acc t @ concat (map (\<lambda>b. batch_labels b t) bs)))"
  using assms(2)
proof (induction bs arbitrary: acc)
  case Nil
  then show ?case by simp
next
  case (Cons b bs)
  then have b: "batch_ok b" and bs: "list_all batch_ok bs" by simp_all
  show ?case
    by (simp add: Module_call_def eval_batch(1) [OF assms(1) b] eval_batch(3) [OF assms(1) b]
        extend_all_tasks Cons.IH [OF bs])
qed

lemma class_count_mset:
  "class_count P a b = real (size (filter_mset (\<lambda>(t, q). P t q) (mset (zip a b))))"
  by (simp add: class_count_def flip: mset_filter)

lemma pairs_sets:
  assumes "length a = length b"
  shows "set a \<union> set b = fst ` set_mset (mset (zip a b)) \<union> snd ` set_mset (mset (zip a b))"
proof -
  have "set a = set (map fst (zip a b))" "set b = set (map snd (zip a b))"
    using assms by simp_all
  then show ?thesis by (simp del: map_fst_zip map_snd_zip)
qed

lemma pairs_length:
  assumes "length a = length b"
  shows "length a = size (mset (zip a b))"
  using assms by simp

lemma metrics_of_pairs:
  assumes "length a = length b" and "length a' = length b'"
      and "mset (zip a' b') = mset (zip a b)"
  shows "accuracy_score a' b' = accuracy_score a b"
    and "f1_score_macro a' b' = f1_score_macro a b"
proof -
  have len: "length a' = length a"
    using pairs_length [OF assms(1)] pairs_length [OF assms(2)] assms(3) by simp
  have cnt: "class_count P a' b' = class_count P a b" for P
    by (simp only: class_count_mset assms(3))
  have acc: "real (length (filter (\<lambda>(t, q). t = q) (zip a' b'))) =
      real (length (filter (\<lambda>(t, q). t = q) (zip a b)))"
    using cnt [of "\<lambda>t q. t = q"] by (simp only: class_count_def)
  show "accuracy_score a' b' = accuracy_score a b"
    using assms(1,2) by (simp add: accuracy_score_def acc len)
  have f1: "f1_of_class a' b' = f1_of_class a b"
    by (rule ext) (simp only: f1_of_class_def cnt)
  have cls: "set a' \<union> set b' = set a \<union> set b"
    by (simp only: pairs_sets [OF assms(1)] pairs_sets [OF assms(2)] assms(3))
  show "f1_score_macro a' b' = f1_score_macro a b"
    using assms(1,2) by (simp add: f1_score_macro_def f1 cls)
qed

lemma task_metrics_cong:
  assumes "\<And>t. accuracy_score (snd acc' t) (fst acc' t) = accuracy_score (snd acc t) (fst acc t)"
      and "\<And>t. f1_score_macro (snd acc' t) (fst acc' t) = f1_score_macro (snd acc t) (fst acc t)"
  shows "task_metrics ts acc' = task_metrics ts acc"
  by (induction ts) (simp_all add: assms cong: sum.case_cong)

lemma task_metrics_ok:
  assumes "\<And>t. length (snd acc t) = length (fst acc t)"
  shows "\<exists>metrics. task_metrics ts acc = Inr metrics"
  by (induction ts) (auto simp: accuracy_score_def f1_score_macro_def assms Let_def)

lemma zip_concat_map:
  assumes "\<And>b. b \<in> set bs \<Longrightarrow> length (f b) = length (g b)"
  shows "zip (concat (map f bs)) (concat (map g bs)) = concat (map (\<lambda>b. zip (f b) (g b)) bs)"
  using assms by (induction bs) simp_all

lemma length_concat_map:
  assumes "\<And>b. b \<in> set bs \<Longrightarrow> length (f b) = length (g b)"
  shows "length (concat (map f bs)) = length (concat (map g bs))"
  using assms by (induction bs) simp_all

lemma mset_concat_map_perm:
  assumes "mset bs' = mset bs"
  shows "mset (concat (map h bs')) = mset (concat (map h bs))"
proof -
  have "mset (concat (map h xs)) = (\<Sum>b\<in>#mset xs. mset (h b))" for xs
    by (induction xs) simp_all
  with assms show ?thesis by simp
qed

lemma demo_accuracy: "accuracy_score [0, 1, 1] [0, 0, 0] = Inr (1 / 3)"
  by (simp add: accuracy_score_def)

lemma demo_f1: "f1_score_macro [0, 1, 1] [0, 0, 0] = Inr (1 / 4)"
  by (simp add: f1_score_macro_def f1_of_class_def class_count_def Let_def)




section \<open>Claims about the training and evaluation loops\<close>


text \<open>
  Claim C5. The loss \<^verbatim>\<open>train_model\<close> computes for a batch is, as a function of the
  parameter values, the sum over the five tasks of the cross-entropy loss between that
  task's head output and that task's labels; where it is defined, the model in training
  mode has returned scores under exactly the five task names. A step of the loop raises
  when that loss raises, and otherwise hands the optimizer this loss function, the
  current parameter values and the optimizer's state, and takes what the optimizer
  returns as the new state. When \<^verbatim>\<open>train_model\<close> returns, its result is the one of
  these steps applied, in order, to every batch of \<open>epochs\<close> passes over the dataloader
  and to nothing else: the state returned is the state after the last step, the history
  has one entry per pass with one loss per batch and the printed average, and the
  \<open>i\<close>-th loss is the summed loss of the \<open>i\<close>-th batch at the parameter values the steps
  before it have produced. \<^verbatim>\<open>train_model\<close> returns whenever no pass is empty and none of
  these losses raises, and an optimizer that counts its steps has counted the batches of
  all passes.
\<close>

theorem train_model_summed_loss:
  "batch_loss (criterion ce) keep b = spec_summed_loss ce keep b \<and>
   (batch_loss (criterion ce) keep b p = Inr loss \<longrightarrow>
      (\<exists>y1 y2 y3 y4 y5 l1 l2 l3 l4 l5.
         model_call ((MultimodalModel_init p)\<lparr>training := True\<rparr>) keep b =
           Inr [(Sentiment, y1), (Humor, y2), (Sarcasm, y3), (Offensive, y4), (Motivational, y5)] \<and>
         ce y1 (batch_labels b Sentiment) = Inr l1 \<and>
         ce y2 (batch_labels b Humor) = Inr l2 \<and>
         ce y3 (batch_labels b Sarcasm) = Inr l3 \<and>
         ce y4 (batch_labels b Offensive) = Inr l4 \<and>
         ce y5 (batch_labels b Motivational) = Inr l5 \<and>
         loss = l1 + l2 + l3 + l4 + l5)) \<and>
   training_step opt (criterion ce) (p, s) (keep, b) =
     (case spec_summed_loss ce keep b p of
        Inl e \<Rightarrow> Inl e
      | Inr l \<Rightarrow> Inr (opt (spec_summed_loss ce keep b) p s, l)) \<and>
   (training_step opt (criterion ce) (p, s) (keep, b) = Inr (st', loss) \<longrightarrow>
      batch_loss (criterion ce) keep b p = Inr loss \<and>
      st' = opt (batch_loss (criterion ce) keep b) p s) \<and>
   (train_model p dataloader opt s (criterion ce) epochs = Inr (st, history) \<longrightarrow>
      st = foldl (spec_step opt ce) (p, s) (all_steps dataloader epochs) \<and>
      length history = epochs \<and>
      (\<forall>e<epochs.
         dataloader e \<noteq> [] \<and> length (fst (history ! e)) = length (dataloader e) \<and>
         snd (history ! e) = foldl (+) 0 (fst (history ! e)) / real (length (dataloader e))) \<and>
      (\<forall>i<length (all_steps dataloader epochs).
         spec_summed_loss ce (fst (all_steps dataloader epochs ! i)) (snd (all_steps dataloader epochs ! i))
           (fst (spec_state_before opt ce (p, s) (all_steps dataloader epochs) i)) =
         Inr (concat (map fst history) ! i)) \<and>
      (\<forall>e<epochs. \<forall>k<length (dataloader e).
         \<exists>q. batch_loss (criterion ce) (fst (dataloader e ! k)) (snd (dataloader e ! k)) q =
               Inr (fst (history ! e) ! k))) \<and>
   ((\<forall>e<epochs. dataloader e \<noteq> []) \<and>
    (\<forall>i<length (all_steps dataloader epochs). \<exists>l.
       spec_summed_loss ce (fst (all_steps dataloader epochs ! i)) (snd (all_steps dataloader epochs ! i))
         (fst (spec_state_before opt ce (p, s) (all_steps dataloader epochs) i)) = Inr l) \<longrightarrow>
      (\<exists>history'. train_model p dataloader opt s (criterion ce) epochs =
         Inr (foldl (spec_step opt ce) (p, s) (all_steps dataloader epochs), history'))) \<and>
   (train_model p dataloader (counting opt) (c, 0) (criterion ce) epochs =
      Inr ((p', (c', n)), history'') \<longrightarrow>
      n = (\<Sum>e<epochs. length (dataloader e)))"
proof (intro conjI)
  show "batch_loss (criterion ce) keep b = spec_summed_loss ce keep b"
    by (rule batch_loss_spec)
next
  show "(batch_loss (criterion ce) keep b p = Inr loss \<longrightarrow>
      (\<exists>y1 y2 y3 y4 y5 l1 l2 l3 l4 l5.
         model_call ((MultimodalModel_init p)\<lparr>training := True\<rparr>) keep b =
           Inr [(Sentiment, y1), (Humor, y2), (Sarcasm, y3), (Offensive, y4), (Motivational, y5)] \<and>
         ce y1 (batch_labels b Sentiment) = Inr l1 \<and>
         ce y2 (batch_labels b Humor) = Inr l2 \<and>
         ce y3 (batch_labels b Sarcasm) = Inr l3 \<and>
         ce y4 (batch_labels b Offensive) = Inr l4 \<and>
         ce y5 (batch_labels b Motivational) = Inr l5 \<and>
         loss = l1 + l2 + l3 + l4 + l5))"
  proof
    assume "batch_loss (criterion ce) keep b p = Inr loss"
    then obtain outputs where
      call: "model_call ((MultimodalModel_init p)\<lparr>training := True\<rparr>) keep b = Inr outputs"
      and sum: "sum_losses 0 (criterion ce) outputs (batch_labels b) = Inr loss"
      by (auto simp: batch_loss_def split: sum.splits)
    from call have "map fst outputs = [Sentiment, Humor, Sarcasm, Offensive, Motivational]"
      unfolding model_call_def using forward_keys init_keys by metis
    from list5 [OF this] obtain y1 y2 y3 y4 y5 where
      outs: "outputs = [(Sentiment, y1), (Humor, y2), (Sarcasm, y3), (Offensive, y4), (Motivational, y5)]"
      by blast
    from sum_losses_five [OF sum [unfolded outs]] call
    show "\<exists>y1 y2 y3 y4 y5 l1 l2 l3 l4 l5.
         model_call ((MultimodalModel_init p)\<lparr>training := True\<rparr>) keep b =
           Inr [(Sentiment, y1), (Humor, y2), (Sarcasm, y3), (Offensive, y4), (Motivational, y5)] \<and>
         ce y1 (batch_labels b Sentiment) = Inr l1 \<and>
         ce y2 (batch_labels b Humor) = Inr l2 \<and>
         ce y3 (batch_labels b Sarcasm) = Inr l3 \<and>
         ce y4 (batch_labels b Offensive) = Inr l4 \<and>
         ce y5 (batch_labels b Motivational) = Inr l5 \<and>
         loss = l1 + l2 + l3 + l4 + l5"
      unfolding outs by auto
  qed
next
  show "training_step opt (criterion ce) (p, s) (keep, b) =
     (case spec_summed_loss ce keep b p of
        Inl e \<Rightarrow> Inl e
      | Inr l \<Rightarrow> Inr (opt (spec_summed_loss ce keep b) p s, l))"
    using training_step_spec [of opt ce "(p, s)" "(keep, b)"]
    by (simp add: spec_step_def split: sum.splits)
next
  show "training_step opt (criterion ce) (p, s) (keep, b) = Inr (st', loss) \<longrightarrow>
      batch_loss (criterion ce) keep b p = Inr loss \<and>
      st' = opt (batch_loss (criterion ce) keep b) p s"
    by (auto simp: training_step_def split: sum.splits)
next
  show "train_model p dataloader opt s (criterion ce) epochs = Inr (st, history) \<longrightarrow>
      st = foldl (spec_step opt ce) (p, s) (all_steps dataloader epochs) \<and>
      length history = epochs \<and>
      (\<forall>e<epochs.
         dataloader e \<noteq> [] \<and> length (fst (history ! e)) = length (dataloader e) \<and>
         snd (history ! e) = foldl (+) 0 (fst (history ! e)) / real (length (dataloader e))) \<and>
      (\<forall>i<length (all_steps dataloader epochs).
         spec_summed_loss ce (fst (all_steps dataloader epochs ! i)) (snd (all_steps dataloader epochs ! i))
           (fst (spec_state_before opt ce (p, s) (all_steps dataloader epochs) i)) =
         Inr (concat (map fst history) ! i)) \<and>
      (\<forall>e<epochs. \<forall>k<length (dataloader e).
         \<exists>q. batch_loss (criterion ce) (fst (dataloader e ! k)) (snd (dataloader e ! k)) q =
               Inr (fst (history ! e) ! k))"
  proof
    assume run: "train_model p dataloader opt s (criterion ce) epochs = Inr (st, history)"
    note t = train_epochs_spec [OF run [unfolded train_model_def]]
    from t train_model_losses [OF run]
    show "st = foldl (spec_step opt ce) (p, s) (all_steps dataloader epochs) \<and>
      length history = epochs \<and>
      (\<forall>e<epochs.
         dataloader e \<noteq> [] \<and> length (fst (history ! e)) = length (dataloader e) \<and>
         snd (history ! e) = foldl (+) 0 (fst (history ! e)) / real (length (dataloader e))) \<and>
      (\<forall>i<length (all_steps dataloader epochs).
         spec_summed_loss ce (fst (all_steps dataloader epochs ! i)) (snd (all_steps dataloader epochs ! i))
           (fst (spec_state_before opt ce (p, s) (all_steps dataloader epochs) i)) =
         Inr (concat (map fst history) ! i)) \<and>
      (\<forall>e<epochs. \<forall>k<length (dataloader e).
         \<exists>q. batch_loss (criterion ce) (fst (dataloader e ! k)) (snd (dataloader e ! k)) q =
               Inr (fst (history ! e) ! k))"
      by (simp add: all_steps_def spec_state_before_def)
  qed
next
  show "(\<forall>e<epochs. dataloader e \<noteq> []) \<and>
    (\<forall>i<length (all_steps dataloader epochs). \<exists>l.
       spec_summed_loss ce (fst (all_steps dataloader epochs ! i)) (snd (all_steps dataloader epochs ! i))
         (fst (spec_state_before opt ce (p, s) (all_steps dataloader epochs) i)) = Inr l) \<longrightarrow>
      (\<exists>history'. train_model p dataloader opt s (criterion ce) epochs =
         Inr (foldl (spec_step opt ce) (p, s) (all_steps dataloader epochs), history'))"
  proof
    assume a: "(\<forall>e<epochs. dataloader e \<noteq> []) \<and>
    (\<forall>i<length (all_steps dataloader epochs). \<exists>l.
       spec_summed_loss ce (fst (all_steps dataloader epochs ! i)) (snd (all_steps dataloader epochs ! i))
         (fst (spec_state_before opt ce (p, s) (all_steps dataloader epochs) i)) = Inr l)"
    then have ne: "\<forall>e\<in>set [0..<epochs]. dataloader e \<noteq> []"
      by simp
    from a train_epochs_total [OF ne, of ce opt "(p, s)"]
    show "(\<exists>history'. train_model p dataloader opt s (criterion ce) epochs =
         Inr (foldl (spec_step opt ce) (p, s) (all_steps dataloader epochs), history'))"
      by (simp add: all_steps_def spec_state_before_def train_model_def)
  qed
next
  show "train_model p dataloader (counting opt) (c, 0) (criterion ce) epochs =
      Inr ((p', (c', n)), history'') \<longrightarrow>
      n = (\<Sum>e<epochs. length (dataloader e))"
  proof
    assume "train_model p dataloader (counting opt) (c, 0) (criterion ce) epochs =
      Inr ((p', (c', n)), history'')"
    then show "n = (\<Sum>e<epochs. length (dataloader e))"
      by (rule train_model_count)
  qed
qed

text \<open>
  C5 on the all-zero parameters with the cross-entropy loss, an optimizer that leaves
  the parameters as they are, and two passes over two batches of two samples: the loss
  of every step is \<open>ln 5 + 3 ln 4 + ln 2\<close>, the history has two entries of two losses,
  and four steps are counted.
\<close>

theorem train_model_summed_loss_witness:
  "(\<exists>y1 y2 y3 y4 y5 l1 l2 l3 l4 l5.
      model_call ((MultimodalModel_init zero_parameters)\<lparr>training := True\<rparr>) (\<lambda>i j. True)
          demo_batch =
        Inr [(Sentiment, y1), (Humor, y2), (Sarcasm, y3), (Offensive, y4), (Motivational, y5)] \<and>
      cross_entropy y1 (batch_labels demo_batch Sentiment) = Inr l1 \<and>
      cross_entropy y2 (batch_labels demo_batch Humor) = Inr l2 \<and>
      cross_entropy y3 (batch_labels demo_batch Sarcasm) = Inr l3 \<and>
      cross_entropy y4 (batch_labels demo_batch Offensive) = Inr l4 \<and>
      cross_entropy y5 (batch_labels demo_batch Motivational) = Inr l5 \<and>
      ln 5 + ln 4 + ln 4 + ln 4 + ln 2 = l1 + l2 + l3 + l4 + l5) \<and>
   training_step (counting (\<lambda>L q u. (q, u))) (criterion cross_entropy) (zero_parameters, ((), 0))
      (\<lambda>i j. True, demo_batch) =
     Inr ((zero_parameters, ((), 1)), ln 5 + ln 4 + ln 4 + ln 4 + ln 2) \<and>
   (\<exists>history.
      train_model zero_parameters (\<lambda>e. [(\<lambda>i j. True, demo_batch), (\<lambda>i j. even j, demo_batch)])
        (counting (\<lambda>L q u. (q, u))) ((), 0) (criterion cross_entropy) 2 =
      Inr ((zero_parameters, ((), 4)), history) \<and>
      length history = 2 \<and> length (fst (history ! 0)) = 2 \<and> length (fst (history ! 1)) = 2 \<and>
      concat (map fst history) ! 0 = ln 5 + ln 4 + ln 4 + ln 4 + ln 2 \<and>
      concat (map fst history) ! 3 = ln 5 + ln 4 + ln 4 + ln 4 + ln 2)"
proof (intro conjI)
  let ?V = "ln 5 + ln 4 + ln 4 + ln 4 + ln 2 :: real"
  let ?opt = "counting (\<lambda>L (q :: unit parameters) (u :: unit). (q, u))"
  let ?dl = "\<lambda>e :: nat. [(\<lambda>i j :: nat. True, demo_batch), (\<lambda>i j :: nat. even j, demo_batch)]"
  have loss: "batch_loss (criterion cross_entropy) (\<lambda>i j. True) demo_batch zero_parameters = Inr ?V"
    by (rule zero_batch_loss)
  note T = train_model_summed_loss [where ce = cross_entropy and p = zero_parameters
      and opt = ?opt and s = "((), 0)" and dataloader = ?dl and epochs = 2
      and keep = "\<lambda>i j. True" and b = demo_batch and loss = ?V]
  from T [THEN conjunct2, THEN conjunct1, rule_format, OF loss]
  show "\<exists>y1 y2 y3 y4 y5 l1 l2 l3 l4 l5.
      model_call ((MultimodalModel_init zero_parameters)\<lparr>training := True\<rparr>) (\<lambda>i j. True)
          demo_batch =
        Inr [(Sentiment, y1), (Humor, y2), (Sarcasm, y3), (Offensive, y4), (Motivational, y5)] \<and>
      cross_entropy y1 (batch_labels demo_batch Sentiment) = Inr l1 \<and>
      cross_entropy y2 (batch_labels demo_batch Humor) = Inr l2 \<and>
      cross_entropy y3 (batch_labels demo_batch Sarcasm) = Inr l3 \<and>
      cross_entropy y4 (batch_labels demo_batch Offensive) = Inr l4 \<and>
      cross_entropy y5 (batch_labels demo_batch Motivational) = Inr l5 \<and>
      ln 5 + ln 4 + ln 4 + ln 4 + ln 2 = l1 + l2 + l3 + l4 + l5" .
  from T [THEN conjunct2, THEN conjunct2, THEN conjunct1]
  show "training_step ?opt (criterion cross_entropy) (zero_parameters, ((), 0))
      (\<lambda>i j. True, demo_batch) = Inr ((zero_parameters, ((), 1)), ?V)"
    by (simp add: zero_spec_loss counting_def)
  have steps: "all_steps ?dl 2 =
      [(\<lambda>i j. True, demo_batch), (\<lambda>i j. even j, demo_batch),
       (\<lambda>i j. True, demo_batch), (\<lambda>i j. even j, demo_batch)]"
    by (simp add: all_steps_def upt_rec [of _ "numeral n" for n] upt_rec [of _ "Suc n" for n])
  have batches: "snd (all_steps ?dl 2 ! i) = demo_batch" if "i < 4" for i
  proof -
    have "\<forall>x\<in>set (all_steps ?dl 2). snd x = demo_batch"
      by (simp add: steps)
    moreover have "all_steps ?dl 2 ! i \<in> set (all_steps ?dl 2)"
      using that by (intro nth_mem) (simp add: steps)
    ultimately show ?thesis by blast
  qed
  have before: "fst (spec_state_before ?opt cross_entropy (zero_parameters, ((), 0)) xs i) =
      zero_parameters" for xs i
    by (simp add: spec_state_before_def counting_identity_foldl)
  have fin: "foldl (spec_step ?opt cross_entropy) (zero_parameters, ((), 0)) (all_steps ?dl 2) =
      (zero_parameters, ((), 4))"
    by (simp add: counting_identity_foldl) (simp add: steps)
  have pre: "(\<forall>e<2. ?dl e \<noteq> []) \<and>
    (\<forall>i<length (all_steps ?dl 2). \<exists>l.
       spec_summed_loss cross_entropy (fst (all_steps ?dl 2 ! i)) (snd (all_steps ?dl 2 ! i))
         (fst (spec_state_before ?opt cross_entropy (zero_parameters, ((), 0)) (all_steps ?dl 2) i)) =
       Inr l)"
    using batches by (simp add: before) (simp add: steps zero_spec_loss)
  from T [THEN conjunct2, THEN conjunct2, THEN conjunct2, THEN conjunct2, THEN conjunct2,
      THEN conjunct1, rule_format, OF pre]
  obtain history where
    run: "train_model zero_parameters ?dl ?opt ((), 0) (criterion cross_entropy) 2 =
      Inr ((zero_parameters, ((), 4)), history)"
    by (auto simp: fin)
  note S = train_model_summed_loss [where ce = cross_entropy and p = zero_parameters
      and opt = ?opt and s = "((), 0)" and dataloader = ?dl and epochs = 2
      and st = "(zero_parameters, ((), 4))" and history = history,
      THEN conjunct2, THEN conjunct2, THEN conjunct2, THEN conjunct2, THEN conjunct1,
      rule_format, OF run]
  from S have len: "length history = 2 \<and> length (fst (history ! 0)) = 2 \<and>
      length (fst (history ! 1)) = 2"
    by simp
  from S have "\<forall>i<4. spec_summed_loss cross_entropy (fst (all_steps ?dl 2 ! i))
      (snd (all_steps ?dl 2 ! i)) zero_parameters = Inr (concat (map fst history) ! i)"
    by (simp add: before) (simp add: steps)
  with batches have "\<forall>i<4. concat (map fst history) ! i = ?V"
    by (simp add: zero_spec_loss)
  then have vals: "concat (map fst history) ! 0 = ?V \<and> concat (map fst history) ! 3 = ?V"
    by simp
  from run len vals show "\<exists>history.
      train_model zero_parameters (\<lambda>e. [(\<lambda>i j. True, demo_batch), (\<lambda>i j. even j, demo_batch)])
        (counting (\<lambda>L q u. (q, u))) ((), 0) (criterion cross_entropy) 2 =
      Inr ((zero_parameters, ((), 4)), history) \<and>
      length history = 2 \<and> length (fst (history ! 0)) = 2 \<and> length (fst (history ! 1)) = 2 \<and>
      concat (map fst history) ! 0 = ln 5 + ln 4 + ln 4 + ln 4 + ln 2 \<and>
      concat (map fst history) ! 3 = ln 5 + ln 4 + ln 4 + ln 4 + ln 2"
    by blast
qed

text \<open>
  Claim C6. For a model built by \<^verbatim>\<open>__init__\<close> whose encoders keep their contract and a
  dataloader of well-formed batches, \<^verbatim>\<open>evaluate_model\<close> returns metrics, and it returns
  the same accuracy and macro-F1 of every task when the batches are traversed in any
  other order. The two metrics of a task are functions of the collection of its
  (ground truth, prediction) pairs alone: two accumulations of the same pairs in
  different orders have the same accuracy and the same macro-F1.
\<close>

theorem evaluate_model_order_independent:
  assumes "encoders_ok p" and "list_all batch_ok dataloader"
      and "mset dataloader' = mset dataloader"
  shows "snd (evaluate_model ((MultimodalModel_init p)\<lparr>training := tr\<rparr>) dataloader') =
           snd (evaluate_model ((MultimodalModel_init p)\<lparr>training := tr\<rparr>) dataloader) \<and>
         (\<exists>metrics. snd (evaluate_model ((MultimodalModel_init p)\<lparr>training := tr\<rparr>) dataloader) =
            Inr metrics) \<and>
         (\<forall>y_true y_pred y_true' y_pred'.
            length y_true = length y_pred \<and> length y_true' = length y_pred' \<and>
            mset (zip y_true' y_pred') = mset (zip y_true y_pred) \<longrightarrow>
              accuracy_score y_true' y_pred' = accuracy_score y_true y_pred \<and>
              f1_score_macro y_true' y_pred' = f1_score_macro y_true y_pred)"
proof -
  let ?m = "(MultimodalModel_init p)\<lparr>training := False\<rparr>"
  let ?P = "\<lambda>bs t. concat (map (\<lambda>b. eval_preds p b t) bs)"
  let ?L = "\<lambda>bs t. concat (map (\<lambda>b. batch_labels b t) bs)"
  have ok': "list_all batch_ok dataloader'"
    using assms(2) mset_eq_setD [OF assms(3)] by (simp add: list_all_iff)
  have run: "evaluate_batches ?m (\<lambda>task. [], \<lambda>task. []) bs = (?m, Inr (?P bs, ?L bs))"
    if "list_all batch_ok bs" for bs
    using evaluate_batches_ok [OF assms(1) that, of "(\<lambda>task. [], \<lambda>task. [])"] by simp
  have same: "length (batch_labels b t) = length (eval_preds p b t)" if "batch_ok b" for b t
    using eval_batch(2) [OF assms(1) that, of t] that by (simp add: batch_ok_def)
  have len: "length (?L bs t) = length (?P bs t)" if "list_all batch_ok bs" for bs t
    using that by (intro length_concat_map) (simp add: same list_all_iff)
  have pairs: "zip (?L bs t) (?P bs t) =
      concat (map (\<lambda>b. zip (batch_labels b t) (eval_preds p b t)) bs)"
    if "list_all batch_ok bs" for bs t
    using that by (intro zip_concat_map) (simp add: same list_all_iff)
  have perm: "mset (zip (?L dataloader' t) (?P dataloader' t)) =
      mset (zip (?L dataloader t) (?P dataloader t))" for t
    by (simp only: pairs [OF ok'] pairs [OF assms(2)] mset_concat_map_perm [OF assms(3)])
  have eq: "task_metrics ts (?P dataloader', ?L dataloader') = task_metrics ts (?P dataloader, ?L dataloader)"
    for ts
    using metrics_of_pairs [OF len [OF assms(2)] len [OF ok'] perm]
    by (intro task_metrics_cong) simp_all
  have ret: "\<exists>metrics. task_metrics ts (?P dataloader, ?L dataloader) = Inr metrics" for ts
    using len [OF assms(2)] by (intro task_metrics_ok) simp
  have batches: "snd (evaluate_model ((MultimodalModel_init p)\<lparr>training := tr\<rparr>) dataloader') =
           snd (evaluate_model ((MultimodalModel_init p)\<lparr>training := tr\<rparr>) dataloader) \<and>
         (\<exists>metrics. snd (evaluate_model ((MultimodalModel_init p)\<lparr>training := tr\<rparr>) dataloader) =
            Inr metrics)"
    using ret [of "[Sentiment, Humor, Sarcasm, Offensive, Motivational]"]
    by (simp add: evaluate_model_def Module_eval_def run [OF ok'] run [OF assms(2)] eq
        del: task_metrics.simps)
  show ?thesis
    using batches metrics_of_pairs by blast
qed

text \<open>
  C6 on the all-zero parameters and two batches in both orders, and on three pairs in
  two orders: accuracy \<open>1/3\<close> and macro-F1 \<open>1/4\<close> either way.
\<close>

theorem evaluate_model_order_independent_witness:
  "snd (evaluate_model ((MultimodalModel_init zero_parameters)\<lparr>training := True\<rparr>)
          [last_batch, demo_batch]) =
     snd (evaluate_model ((MultimodalModel_init zero_parameters)\<lparr>training := True\<rparr>)
          [demo_batch, last_batch]) \<and>
   (\<exists>metrics. snd (evaluate_model ((MultimodalModel_init zero_parameters)\<lparr>training := True\<rparr>)
          [demo_batch, last_batch]) = Inr metrics) \<and>
   accuracy_score [1, 0, 1] [0, 0, 0] = Inr (1 / 3) \<and>
   f1_score_macro [1, 0, 1] [0, 0, 0] = Inr (1 / 4)"
proof -
  have ok: "list_all batch_ok [demo_batch, last_batch]"
    by (simp add: batch_ok_def demo_batch_def last_batch_def)
  have perm: "mset [last_batch, demo_batch] = mset [demo_batch, last_batch]"
    by (simp add: add_mset_commute)
  note inv = evaluate_model_order_independent [OF encoders_ok_zero ok perm, of True]
  have pairs: "length [0, 1, 1 :: nat] = length [0, 0, 0 :: nat] \<and>
      length [1, 0, 1 :: nat] = length [0, 0, 0 :: nat] \<and>
      mset (zip [1, 0, 1 :: nat] [0, 0, 0 :: nat]) = mset (zip [0, 1, 1 :: nat] [0, 0, 0 :: nat])"
    by (simp add: add_mset_commute)
  from inv pairs have "accuracy_score [1, 0, 1] [0, 0, 0] = accuracy_score [0, 1, 1] [0, 0, 0] \<and>
      f1_score_macro [1, 0, 1] [0, 0, 0] = f1_score_macro [0, 1, 1] [0, 0, 0]"
    by blast
  with inv show ?thesis
    by (simp only: demo_accuracy demo_f1)
qed

end
